theory Spec2Isabelle
  imports Complex_Main "HOL-Library.Word" "HOL-Library.Log_Nat"
begin

text \<open>
  A model of the Animal Adventure game: the Collection module (\<open>collection.js\<close>: the
  set of collected ids, its persistence in \<open>localStorage\<close>, the progress summary and the
  gallery), the narration text of the Speech module (\<open>speech.js\<close>), the catalog load of
  the AnimalData module (\<open>map.js\<close>) and the start of the application (\<open>app.js\<close>). The
  platform is modelled as far as these functions use it: strings, numbers, \<open>JSON\<close>,
  \<open>Set\<close>, \<open>localStorage\<close>, a few DOM elements and \<open>fetch\<close>.
\<close>

unbundle bit_operations_syntax

section \<open>Strings\<close>

text \<open>
  A JavaScript string is a sequence of 16-bit code units. String literals of the source
  are ASCII and are written with \<open>ascii\<close>.
\<close>

type_synonym jsstring = "16 word list"

definition ascii :: "string \<Rightarrow> jsstring" where
  "ascii s = map of_char s"

definition digit :: "nat \<Rightarrow> 16 word" where
  "digit d = of_nat (48 + d)"

text \<open>
  The decimal digits of a natural number: what a template literal or an assignment to
  \<open>textContent\<close> prints for a non-negative integer below \<open>10^21\<close>.
\<close>

function decimal :: "nat \<Rightarrow> jsstring" where
  "decimal n = (if n < 10 then [digit n] else decimal (n div 10) @ [digit (n mod 10)])"
  by pat_completeness auto
termination
  by (relation "measure id") auto

declare decimal.simps [simp del]

text \<open>\<open>Array.prototype.join\<close> on an array of strings.\<close>

fun join :: "jsstring \<Rightarrow> jsstring list \<Rightarrow> jsstring" where
  "join sep [] = []"
| "join sep [x] = x"
| "join sep (x # y # ys) = x @ sep @ join sep (y # ys)"

definition push :: "'a list \<Rightarrow> 'a \<Rightarrow> 'a list" where
  "push parts x = parts @ [x]"

definition is_high_surrogate :: "16 word \<Rightarrow> bool" where
  "is_high_surrogate c = (0xD800 \<le> c \<and> c \<le> 0xDBFF)"

definition is_low_surrogate :: "16 word \<Rightarrow> bool" where
  "is_low_surrogate c = (0xDC00 \<le> c \<and> c \<le> 0xDFFF)"

text \<open>Iterating a string yields its code points: a surrogate pair stays together.\<close>

fun code_points :: "jsstring \<Rightarrow> jsstring list" where
  "code_points (c # d # cs) =
     (if is_high_surrogate c \<and> is_low_surrogate d then [c, d] # code_points cs
      else [c] # code_points (d # cs))"
| "code_points [c] = [[c]]"
| "code_points [] = []"


section \<open>Numbers\<close>

text \<open>
  A JavaScript number is an IEEE 754 binary64 value. A finite value other than the
  negative zero is carried as the rational it denotes, so that \<open>Finite 0\<close> is the positive
  zero \<open>+0\<close>, and \<open>NegZero\<close> is \<open>-0\<close>. Every arithmetic operation rounds its exact result
  to the nearest representable value, ties to the even significand (\<open>round64\<close>): 53
  significant bits, least exponent \<open>-1074\<close>, overflow to infinity from \<open>2^1024\<close> on.
\<close>

datatype number = NaN | PosInfinity | NegInfinity | NegZero | Finite rat

text \<open>For \<open>q > 0\<close>, the integer \<open>e\<close> with \<open>2^e \<le> q < 2^(e+1)\<close>.\<close>

definition ilog2 :: "rat \<Rightarrow> int" where
  "ilog2 q =
     (let (a, b) = quotient_of q; d = bitlen a - bitlen b
      in if 2 powi d \<le> q then d else d - 1)"

definition round_half_even :: "rat \<Rightarrow> int" where
  "round_half_even x =
     (let f = \<lfloor>x\<rfloor>; r = x - of_int f
      in if r < 1 / 2 then f else if 1 / 2 < r then f + 1 else if even f then f else f + 1)"

text \<open>
  The double nearest to the rational \<open>q\<close>. A result that underflows to zero keeps the
  sign of \<open>q\<close>; for \<open>q = 0\<close> the operations below choose the sign of the zero themselves.
\<close>

definition round64 :: "rat \<Rightarrow> number" where
  "round64 q =
     (if q = 0 then Finite 0
      else
        let e = max (ilog2 \<bar>q\<bar> - 52) (- 1074);
            m = round_half_even (\<bar>q\<bar> / 2 powi e);
            v = of_int m * 2 powi e
        in if 2 powi 1024 \<le> v then (if 0 < q then PosInfinity else NegInfinity)
           else if m = 0 then (if 0 < q then Finite 0 else NegZero)
           else Finite (sgn q * v))"

text \<open>
  The sign bit of a number that is not \<open>NaN\<close>, its value when it is finite, and the zero
  and the infinity of a given sign.
\<close>

fun sign_bit :: "number \<Rightarrow> bool" where
  "sign_bit NegInfinity = True"
| "sign_bit NegZero = True"
| "sign_bit (Finite x) = (x < 0)"
| "sign_bit _ = False"

fun finite_value :: "number \<Rightarrow> rat option" where
  "finite_value (Finite x) = Some x"
| "finite_value NegZero = Some 0"
| "finite_value _ = None"

definition signed_zero :: "bool \<Rightarrow> number" where
  "signed_zero neg = (if neg then NegZero else Finite 0)"

definition signed_infinity :: "bool \<Rightarrow> number" where
  "signed_infinity neg = (if neg then NegInfinity else PosInfinity)"

text \<open>
  The operators \<open>/\<close> and \<open>*\<close>: the sign of the result is negative exactly when the signs
  of the operands differ; \<open>0 / 0\<close>, \<open>\<infinity> / \<infinity>\<close> and \<open>0 * \<infinity>\<close> are \<open>NaN\<close>, a number that is not zero
  divided by a zero is an infinity.
\<close>

definition num_div :: "number \<Rightarrow> number \<Rightarrow> number" where
  "num_div x y =
     (if x = NaN \<or> y = NaN then NaN
      else
        let neg = (sign_bit x \<noteq> sign_bit y)
        in case (finite_value x, finite_value y) of
             (None, None) \<Rightarrow> NaN
           | (None, Some b) \<Rightarrow> signed_infinity neg
           | (Some a, None) \<Rightarrow> signed_zero neg
           | (Some a, Some b) \<Rightarrow>
               if b = 0 then (if a = 0 then NaN else signed_infinity neg)
               else if a = 0 then signed_zero neg
               else round64 (a / b))"

definition num_mul :: "number \<Rightarrow> number \<Rightarrow> number" where
  "num_mul x y =
     (if x = NaN \<or> y = NaN then NaN
      else
        let neg = (sign_bit x \<noteq> sign_bit y)
        in case (finite_value x, finite_value y) of
             (None, None) \<Rightarrow> signed_infinity neg
           | (None, Some b) \<Rightarrow> if b = 0 then NaN else signed_infinity neg
           | (Some a, None) \<Rightarrow> if a = 0 then NaN else signed_infinity neg
           | (Some a, Some b) \<Rightarrow>
               if a = 0 \<or> b = 0 then signed_zero neg
               else round64 (a * b))"

text \<open>
  \<open>Math.round\<close>: the nearest integer, a tie going up; a result zero is \<open>-0\<close> for an
  argument below zero (from \<open>-0.5\<close> on), and \<open>-0\<close> itself is returned as it is.
\<close>

fun Math_round :: "number \<Rightarrow> number" where
  "Math_round (Finite x) =
     (if \<lfloor>x + 1 / 2\<rfloor> = 0 \<and> x < 0 then NegZero else Finite (of_int \<lfloor>x + 1 / 2\<rfloor>))"
| "Math_round n = n"

text \<open>
  \<open>Number::toString\<close>: the shortest decimal digits \<open>s\<close> (\<open>k\<close> of them, scaled by
  \<open>10^(n-k)\<close>) that read back as the same double, in positional notation when
  \<open>-6 < n \<le> 21\<close> and in exponent notation otherwise.
\<close>

function count_digits :: "int \<Rightarrow> int" where
  "count_digits a = (if a \<le> 0 then 0 else count_digits (a div 10) + 1)"
  by pat_completeness auto
termination
  by (relation "measure nat") auto

declare count_digits.simps [simp del]

definition decimal_exponent :: "rat \<Rightarrow> int" where
  "decimal_exponent x =
     (let (a, b) = quotient_of x; d = count_digits a - count_digits b
      in if 10 powi d \<le> x then d + 1 else d)"

definition digit_candidates :: "rat \<Rightarrow> int \<Rightarrow> nat \<Rightarrow> int list" where
  "digit_candidates x n k =
     (let p = 10 powi (n - int k); lo = \<lfloor>x / p\<rfloor>
      in filter (\<lambda>s. round64 (of_int s * p) = Finite x) [lo, lo + 1])"

definition closest_candidate :: "rat \<Rightarrow> int \<Rightarrow> nat \<Rightarrow> int" where
  "closest_candidate x n k =
     (let p = 10 powi (n - int k)
      in case digit_candidates x n k of
           [s] \<Rightarrow> s
         | [lo, hi] \<Rightarrow>
             if x - of_int lo * p < of_int hi * p - x then lo
             else if of_int hi * p - x < x - of_int lo * p then hi
             else if even lo then lo else hi
         | _ \<Rightarrow> \<lfloor>x / p\<rfloor>)"

definition shortest_digits :: "rat \<Rightarrow> nat \<times> int \<times> nat" where
  "shortest_digits x =
     (let n = decimal_exponent x;
          k = (case find (\<lambda>k. digit_candidates x n k \<noteq> []) [1..<18] of Some k \<Rightarrow> k | None \<Rightarrow> 17);
          s = nat (closest_candidate x n k)
      in if s = 10 ^ k then (1, n + 1, 1) else (s, n, k))"

definition format_digits :: "nat \<times> int \<times> nat \<Rightarrow> jsstring" where
  "format_digits snk =
     (let (s, n, k) = snk; ds = decimal s
      in if int k \<le> n \<and> n \<le> 21 then ds @ replicate (nat (n - int k)) (digit 0)
         else if 0 < n \<and> n \<le> 21 then take (nat n) ds @ ascii ''.'' @ drop (nat n) ds
         else if - 6 < n \<and> n \<le> 0 then ascii ''0.'' @ replicate (nat (- n)) (digit 0) @ ds
         else
           let e = n - 1;
               ex = (if e < 0 then ascii ''-'' else ascii ''+'') @ decimal (nat \<bar>e\<bar>)
           in if k = 1 then ds @ ascii ''e'' @ ex
              else take 1 ds @ ascii ''.'' @ drop 1 ds @ ascii ''e'' @ ex)"

fun Number_toString :: "number \<Rightarrow> jsstring" where
  "Number_toString NaN = ascii ''NaN''"
| "Number_toString PosInfinity = ascii ''Infinity''"
| "Number_toString NegInfinity = ascii ''-Infinity''"
| "Number_toString NegZero = ascii ''0''"
| "Number_toString (Finite x) =
     (if x = 0 then ascii ''0''
      else if x < 0 then ascii ''-'' @ format_digits (shortest_digits (- x))
      else format_digits (shortest_digits x))"


section \<open>JSON\<close>

text \<open>
  The values of \<open>JSON.parse\<close>. An object lists its properties in the order in which the
  platform enumerates them.
\<close>

datatype json =
    JNull
  | JBool bool
  | JNumber number
  | JString jsstring
  | JArray "json list"
  | JObject "(jsstring \<times> json) list"

text \<open>The exceptions that the modelled code can meet.\<close>

datatype error = SecurityError | QuotaExceededError | SyntaxError | TypeError | HttpError nat

subsection \<open>\<open>JSON.stringify\<close>\<close>

text \<open>
  \<open>QuoteJSONString\<close> escapes the quotation mark (22), the backslash (5C), the control
  characters below 20 and lone surrogates; everything else is copied.
\<close>

definition hex_digit :: "16 word \<Rightarrow> 16 word" where
  "hex_digit d = (if d < 10 then 48 + d else 87 + d)"

definition unicode_escape :: "16 word \<Rightarrow> jsstring" where
  "unicode_escape c =
     [0x5C, 0x75, hex_digit (drop_bit 12 c), hex_digit (take_bit 4 (drop_bit 8 c)),
      hex_digit (take_bit 4 (drop_bit 4 c)), hex_digit (take_bit 4 c)]"

definition quote_unit :: "16 word \<Rightarrow> jsstring" where
  "quote_unit c =
     (if c = 0x08 then [0x5C, 0x62]
      else if c = 0x09 then [0x5C, 0x74]
      else if c = 0x0A then [0x5C, 0x6E]
      else if c = 0x0C then [0x5C, 0x66]
      else if c = 0x0D then [0x5C, 0x72]
      else if c = 0x22 then [0x5C, 0x22]
      else if c = 0x5C then [0x5C, 0x5C]
      else if c < 0x20 \<or> is_high_surrogate c \<or> is_low_surrogate c then unicode_escape c
      else [c])"

fun quote_units :: "jsstring \<Rightarrow> jsstring" where
  "quote_units (c # d # cs) =
     (if is_high_surrogate c \<and> is_low_surrogate d then c # d # quote_units cs
      else quote_unit c @ quote_units (d # cs))"
| "quote_units [c] = quote_unit c"
| "quote_units [] = []"

definition QuoteJSONString :: "jsstring \<Rightarrow> jsstring" where
  "QuoteJSONString s = 0x22 # quote_units s @ [0x22]"

fun JSON_stringify :: "json \<Rightarrow> jsstring" where
  "JSON_stringify JNull = ascii ''null''"
| "JSON_stringify (JBool b) = (if b then ascii ''true'' else ascii ''false'')"
| "JSON_stringify (JNumber n) =
     (case n of
        Finite x \<Rightarrow> Number_toString n
      | NegZero \<Rightarrow> Number_toString n
      | _ \<Rightarrow> ascii ''null'')"
| "JSON_stringify (JString s) = QuoteJSONString s"
| "JSON_stringify (JArray xs) = ascii ''['' @ join (ascii '','') (map JSON_stringify xs) @ ascii '']''"
| "JSON_stringify (JObject ms) =
     ascii ''{'' @
     join (ascii '','') (map (\<lambda>(k, v). QuoteJSONString k @ ascii '':'' @ JSON_stringify v) ms) @
     ascii ''}''"

subsection \<open>\<open>JSON.parse\<close>: tokens\<close>

datatype token =
    TLeftBracket | TRightBracket | TLeftBrace | TRightBrace | TComma | TColon
  | TString jsstring | TNumber number | TTrue | TFalse | TNull

definition is_whitespace :: "16 word \<Rightarrow> bool" where
  "is_whitespace c = (c = 0x09 \<or> c = 0x0A \<or> c = 0x0D \<or> c = 0x20)"

definition is_digit :: "16 word \<Rightarrow> bool" where
  "is_digit c = (0x30 \<le> c \<and> c \<le> 0x39)"

definition hex_value :: "16 word \<Rightarrow> 16 word option" where
  "hex_value c =
     (if 0x30 \<le> c \<and> c \<le> 0x39 then Some (c - 0x30)
      else if 0x41 \<le> c \<and> c \<le> 0x46 then Some (c - 0x37)
      else if 0x61 \<le> c \<and> c \<le> 0x66 then Some (c - 0x57)
      else None)"

definition unescape :: "16 word \<Rightarrow> 16 word option" where
  "unescape e =
     (if e = 0x22 then Some 0x22
      else if e = 0x5C then Some 0x5C
      else if e = 0x2F then Some 0x2F
      else if e = 0x62 then Some 0x08
      else if e = 0x66 then Some 0x0C
      else if e = 0x6E then Some 0x0A
      else if e = 0x72 then Some 0x0D
      else if e = 0x74 then Some 0x09
      else None)"

definition hex4 :: "jsstring \<Rightarrow> 16 word option" where
  "hex4 s =
     (case s of
        a # b # c # d # rest \<Rightarrow>
          (case (hex_value a, hex_value b, hex_value c, hex_value d) of
             (Some h3, Some h2, Some h1, Some h0) \<Rightarrow>
               Some (push_bit 12 h3 OR push_bit 8 h2 OR push_bit 4 h1 OR h0)
           | _ \<Rightarrow> None)
      | _ \<Rightarrow> None)"

text \<open>The characters of a string literal after its opening quotation mark.\<close>

fun lex_string :: "jsstring \<Rightarrow> (jsstring \<times> jsstring) option" where
  "lex_string [] = None"
| "lex_string (c # cs) =
     (if c = 0x22 then Some ([], cs)
      else if c = 0x5C then
        (case cs of
           [] \<Rightarrow> None
         | e # cs' \<Rightarrow>
             if e = 0x75 then
               (case hex4 cs' of
                  None \<Rightarrow> None
                | Some u \<Rightarrow>
                    (case lex_string (drop 4 cs') of
                       None \<Rightarrow> None
                     | Some (s, rest) \<Rightarrow> Some (u # s, rest)))
             else
               (case unescape e of
                  None \<Rightarrow> None
                | Some u \<Rightarrow>
                    (case lex_string cs' of
                       None \<Rightarrow> None
                     | Some (s, rest) \<Rightarrow> Some (u # s, rest))))
      else if c < 0x20 then None
      else
        (case lex_string cs of
           None \<Rightarrow> None
         | Some (s, rest) \<Rightarrow> Some (c # s, rest)))"


lemma lex_string_length: "lex_string s = Some (x, rest) \<Longrightarrow> length rest < length s"
proof (induction s arbitrary: x rest rule: lex_string.induct)
  case 1
  then show ?case by simp
next
  case (2 c cs)
  then show ?case
    by (fastforce split: if_splits list.splits option.splits)
qed

fun digits_value :: "jsstring \<Rightarrow> nat \<Rightarrow> nat" where
  "digits_value [] acc = acc"
| "digits_value (c # cs) acc = digits_value cs (10 * acc + unat (c - 0x30))"

text \<open>
  A number literal: \<open>-? (0 | [1-9][0-9]*) (. [0-9]+)? ([eE] [+-]? [0-9]+)?\<close>. Its value is
  the double nearest to the decimal number written; a zero after the sign \<open>-\<close> is \<open>-0\<close>.
\<close>

definition lex_int :: "jsstring \<Rightarrow> (jsstring \<times> jsstring) option" where
  "lex_int s =
     (case s of
        [] \<Rightarrow> None
      | c # cs \<Rightarrow>
          if c = 0x30 then Some ([c], cs)
          else if is_digit c then Some (takeWhile is_digit s, dropWhile is_digit s)
          else None)"

definition lex_fraction :: "jsstring \<Rightarrow> (jsstring \<times> jsstring) option" where
  "lex_fraction s =
     (case s of
        c # cs \<Rightarrow>
          if c = 0x2E then
            (if takeWhile is_digit cs = [] then None
             else Some (takeWhile is_digit cs, dropWhile is_digit cs))
          else Some ([], s)
      | [] \<Rightarrow> Some ([], s))"

definition lex_exponent_digits :: "bool \<Rightarrow> jsstring \<Rightarrow> (int \<times> jsstring) option" where
  "lex_exponent_digits negative s =
     (if takeWhile is_digit s = [] then None
      else
        let e = int (digits_value (takeWhile is_digit s) 0)
        in Some (if negative then - e else e, dropWhile is_digit s))"

definition lex_exponent :: "jsstring \<Rightarrow> (int \<times> jsstring) option" where
  "lex_exponent s =
     (case s of
        c # cs \<Rightarrow>
          if c = 0x65 \<or> c = 0x45 then
            (case cs of
               d # ds \<Rightarrow>
                 if d = 0x2B then lex_exponent_digits False ds
                 else if d = 0x2D then lex_exponent_digits True ds
                 else lex_exponent_digits False cs
             | [] \<Rightarrow> None)
          else Some (0, s)
      | [] \<Rightarrow> Some (0, s))"

definition lex_unsigned :: "jsstring \<Rightarrow> (rat \<times> jsstring) option" where
  "lex_unsigned s =
     (case lex_int s of
        None \<Rightarrow> None
      | Some (ip, s1) \<Rightarrow>
          (case lex_fraction s1 of
             None \<Rightarrow> None
           | Some (fp, s2) \<Rightarrow>
               (case lex_exponent s2 of
                  None \<Rightarrow> None
                | Some (e, s3) \<Rightarrow>
                    Some (of_nat (digits_value (ip @ fp) 0) * 10 powi (e - int (length fp)), s3))))"

definition lex_number :: "jsstring \<Rightarrow> (number \<times> jsstring) option" where
  "lex_number s =
     (case s of
        [] \<Rightarrow> None
      | c # cs \<Rightarrow>
          if c = 0x2D then
            (case lex_unsigned cs of
               None \<Rightarrow> None
             | Some (v, rest) \<Rightarrow> Some (if v = 0 then NegZero else round64 (- v), rest))
          else
            (case lex_unsigned s of None \<Rightarrow> None | Some (v, rest) \<Rightarrow> Some (round64 v, rest)))"

lemma lex_int_length: "lex_int s = Some (x, rest) \<Longrightarrow> length rest < length s"
  by (auto simp: lex_int_def le_imp_less_Suc length_dropWhile_le split: list.splits if_splits)

lemma lex_fraction_length: "lex_fraction s = Some (x, rest) \<Longrightarrow> length rest \<le> length s"
  by (auto simp: lex_fraction_def le_SucI length_dropWhile_le split: list.splits if_splits)

lemma lex_exponent_digits_length:
  "lex_exponent_digits b s = Some (x, rest) \<Longrightarrow> length rest \<le> length s"
  by (auto simp: lex_exponent_digits_def Let_def length_dropWhile_le split: if_splits)

lemma lex_exponent_length: "lex_exponent s = Some (x, rest) \<Longrightarrow> length rest \<le> length s"
  by (auto simp: lex_exponent_def split: list.splits if_splits
      dest!: lex_exponent_digits_length)

lemma lex_unsigned_length: "lex_unsigned s = Some (x, rest) \<Longrightarrow> length rest < length s"
  by (auto simp: lex_unsigned_def split: option.splits
      dest!: lex_int_length lex_fraction_length lex_exponent_length)

lemma lex_number_length: "lex_number s = Some (x, rest) \<Longrightarrow> length rest < length s"
  by (auto simp: lex_number_def split: list.splits if_splits option.splits
      dest!: lex_unsigned_length)

function lex :: "jsstring \<Rightarrow> token list option" where
  "lex [] = Some []"
| "lex (c # cs) =
     (if is_whitespace c then lex cs
      else if c = 0x5B then map_option ((#) TLeftBracket) (lex cs)
      else if c = 0x5D then map_option ((#) TRightBracket) (lex cs)
      else if c = 0x7B then map_option ((#) TLeftBrace) (lex cs)
      else if c = 0x7D then map_option ((#) TRightBrace) (lex cs)
      else if c = 0x2C then map_option ((#) TComma) (lex cs)
      else if c = 0x3A then map_option ((#) TColon) (lex cs)
      else if c = 0x22 then
        (case lex_string cs of
           None \<Rightarrow> None
         | Some (s, rest) \<Rightarrow> map_option ((#) (TString s)) (lex rest))
      else if c = 0x2D \<or> is_digit c then
        (case lex_number (c # cs) of
           None \<Rightarrow> None
         | Some (n, rest) \<Rightarrow> map_option ((#) (TNumber n)) (lex rest))
      else if take 4 (c # cs) = ascii ''true'' then map_option ((#) TTrue) (lex (drop 3 cs))
      else if take 5 (c # cs) = ascii ''false'' then map_option ((#) TFalse) (lex (drop 4 cs))
      else if take 4 (c # cs) = ascii ''null'' then map_option ((#) TNull) (lex (drop 3 cs))
      else None)"
  by pat_completeness auto
termination
  by (relation "measure length")
    (auto dest: lex_string_length lex_number_length intro: le_imp_less_Suc)

declare lex.simps [simp del]

text \<open>The tokens of the elements of an array of strings, up to the closing bracket.\<close>

fun elements_tokens :: "jsstring list \<Rightarrow> token list" where
  "elements_tokens [] = [TRightBracket]"
| "elements_tokens [x] = [TString x, TRightBracket]"
| "elements_tokens (x # y # ys) = TString x # TComma # elements_tokens (y # ys)"

subsection \<open>Property order of an object\<close>

definition define_property ::
  "(jsstring \<times> json) list \<Rightarrow> jsstring \<Rightarrow> json \<Rightarrow> (jsstring \<times> json) list" where
  "define_property ms k v =
     (if k \<in> fst ` set ms then map (\<lambda>(k', v'). if k' = k then (k', v) else (k', v')) ms
      else ms @ [(k, v)])"

definition array_index :: "jsstring \<Rightarrow> nat option" where
  "array_index k =
     (if k \<noteq> [] \<and> list_all is_digit k \<and> (k = [0x30] \<or> hd k \<noteq> 0x30) \<and>
         length k \<le> 10 \<and> digits_value k 0 < 4294967295
      then Some (digits_value k 0) else None)"

definition own_property_order :: "(jsstring \<times> json) list \<Rightarrow> (jsstring \<times> json) list" where
  "own_property_order ms =
     sort_key (\<lambda>(k, v). case array_index k of Some n \<Rightarrow> n | None \<Rightarrow> 0)
       (filter (\<lambda>(k, v). array_index k \<noteq> None) ms) @
     filter (\<lambda>(k, v). array_index k = None) ms"

subsection \<open>\<open>JSON.parse\<close>: the parser\<close>

text \<open>
  A pushdown automaton over the tokens: the stack holds the arrays and objects that are
  open, \<open>expect\<close> says which tokens may come next, and the third component is the value
  of the whole text once it is complete. Any other token is a syntax error.
\<close>

datatype frame =
    ArrayFrame "json list"
  | ObjectFrame "(jsstring \<times> json) list" "jsstring option"

datatype expect = Value | ValueOrClose | CommaOrClose | Key | KeyOrClose | ColonNext | End

type_synonym parser_state = "frame list \<times> expect \<times> json option"

fun deliver :: "json \<Rightarrow> frame list \<Rightarrow> parser_state option" where
  "deliver v [] = Some ([], End, Some v)"
| "deliver v (ArrayFrame es # st) = Some (ArrayFrame (es @ [v]) # st, CommaOrClose, None)"
| "deliver v (ObjectFrame ms (Some k) # st) =
     Some (ObjectFrame (define_property ms k v) None # st, CommaOrClose, None)"
| "deliver v (ObjectFrame ms None # st) = None"

fun close_frame :: "token \<Rightarrow> frame list \<Rightarrow> parser_state option" where
  "close_frame TRightBracket (ArrayFrame es # st) = deliver (JArray es) st"
| "close_frame TRightBrace (ObjectFrame ms None # st) = deliver (JObject (own_property_order ms)) st"
| "close_frame _ _ = None"

fun scalar :: "token \<Rightarrow> json option" where
  "scalar (TString s) = Some (JString s)"
| "scalar (TNumber n) = Some (JNumber n)"
| "scalar TTrue = Some (JBool True)"
| "scalar TFalse = Some (JBool False)"
| "scalar TNull = Some JNull"
| "scalar _ = None"

fun begin_value :: "token \<Rightarrow> frame list \<Rightarrow> parser_state option" where
  "begin_value TLeftBracket st = Some (ArrayFrame [] # st, ValueOrClose, None)"
| "begin_value TLeftBrace st = Some (ObjectFrame [] None # st, KeyOrClose, None)"
| "begin_value t st = (case scalar t of Some v \<Rightarrow> deliver v st | None \<Rightarrow> None)"

fun begin_key :: "token \<Rightarrow> frame list \<Rightarrow> parser_state option" where
  "begin_key (TString k) (ObjectFrame ms None # st) = Some (ObjectFrame ms (Some k) # st, ColonNext, None)"
| "begin_key _ _ = None"

fun step :: "parser_state \<Rightarrow> token \<Rightarrow> parser_state option" where
  "step (st, Value, r) t = begin_value t st"
| "step (st, ValueOrClose, r) t = (if t = TRightBracket then close_frame t st else begin_value t st)"
| "step (st, CommaOrClose, r) t =
     (if t = TComma then
        (case st of
           ArrayFrame es # st' \<Rightarrow> Some (st, Value, None)
         | ObjectFrame ms k # st' \<Rightarrow> Some (st, Key, None)
         | [] \<Rightarrow> None)
      else close_frame t st)"
| "step (st, Key, r) t = begin_key t st"
| "step (st, KeyOrClose, r) t = (if t = TRightBrace then close_frame t st else begin_key t st)"
| "step (st, ColonNext, r) t = (if t = TColon then Some (st, Value, None) else None)"
| "step (st, End, r) t = None"

fun run :: "parser_state \<Rightarrow> token list \<Rightarrow> error + json" where
  "run (st, e, r) [] = (case r of Some v \<Rightarrow> Inr v | None \<Rightarrow> Inl SyntaxError)"
| "run ps (t # ts) = (case step ps t of None \<Rightarrow> Inl SyntaxError | Some ps' \<Rightarrow> run ps' ts)"

definition JSON_parse :: "jsstring \<Rightarrow> error + json" where
  "JSON_parse text =
     (case lex text of
        None \<Rightarrow> Inl SyntaxError
      | Some ts \<Rightarrow> run ([], Value, None) ts)"


section \<open>Sets\<close>

text \<open>
  A \<open>Set\<close> is the list of its elements in insertion order. Membership is decided by
  \<open>SameValueZero\<close>: primitive values are compared by value, \<open>-0\<close> being the same as \<open>+0\<close>,
  while the arrays and objects that \<open>JSON.parse\<close> creates are fresh and equal to nothing
  else. \<open>add\<close> stores \<open>+0\<close> for \<open>-0\<close>. \<open>new Set(iterable)\<close> adds the elements of an array
  or the code points of a string, is empty for \<open>null\<close>, and throws a \<open>TypeError\<close> for a
  value that cannot be iterated.
\<close>

definition positive_zero :: "json \<Rightarrow> json" where
  "positive_zero x = (if x = JNumber NegZero then JNumber (Finite 0) else x)"

definition same_value_zero :: "json \<Rightarrow> json \<Rightarrow> bool" where
  "same_value_zero x y =
     (case x of
        JArray _ \<Rightarrow> False
      | JObject _ \<Rightarrow> False
      | _ \<Rightarrow> positive_zero x = positive_zero y)"

definition Set_has :: "json list \<Rightarrow> json \<Rightarrow> bool" where
  "Set_has xs x = list_ex (same_value_zero x) xs"

definition Set_add :: "json list \<Rightarrow> json \<Rightarrow> json list" where
  "Set_add xs x = (if Set_has xs x then xs else xs @ [positive_zero x])"

definition new_Set :: "json \<Rightarrow> error + json list" where
  "new_Set iterable =
     (case iterable of
        JNull \<Rightarrow> Inr []
      | JArray xs \<Rightarrow> Inr (foldl Set_add [] xs)
      | JString s \<Rightarrow> Inr (foldl Set_add [] (map JString (code_points s)))
      | _ \<Rightarrow> Inl TypeError)"


section \<open>Animal records\<close>

text \<open>
  The fields of a catalog record that the modelled functions read. \<open>facts\<close> and
  \<open>speechPractice\<close> may be missing from a record; the other fields are strings.
\<close>

record speech_practice =
  hasGKSound :: bool
  phonetic :: jsstring
  targetSound :: jsstring
  tip :: jsstring

record animal =
  id' :: jsstring
  name :: jsstring
  category :: jsstring
  habitat :: jsstring
  rarity :: jsstring
  image' :: jsstring
  facts :: "jsstring list option"
  speechPractice :: "speech_practice option"


section \<open>Speech module: \<open>buildSpeechText\<close>\<close>

text \<open>
  The body of \<open>animal.facts.forEach((fact, i) => parts.push(`Fact ${i + 1}: ${fact}`))\<close>,
  run from index \<open>i\<close> on.
\<close>

fun forEach_fact :: "jsstring list \<Rightarrow> nat \<Rightarrow> jsstring list \<Rightarrow> jsstring list" where
  "forEach_fact [] i parts = parts"
| "forEach_fact (f # rest) i parts =
     forEach_fact rest (i + 1) (push parts (ascii ''Fact '' @ decimal (i + 1) @ ascii '': '' @ f))"

text \<open>
  \<open>String.prototype.toUpperCase\<close> belongs to the platform and is a parameter of the model.
\<close>

definition buildSpeechText :: "(jsstring \<Rightarrow> jsstring) \<Rightarrow> animal \<Rightarrow> jsstring" where
  "buildSpeechText toUpperCase animal =
     (let parts = [];
          parts = push parts (name animal);
          category_text =
            (if category animal = ascii ''dinosaur''
             then ascii ''is an Australian dinosaur''
             else ascii ''is one of Australia's deadly creatures'');
          parts = push parts category_text;
          parts =
            (case facts animal of
               Some fs \<Rightarrow>
                 if length fs > 0
                 then forEach_fact fs 0 (push parts (ascii ''Here are some fun facts:''))
                 else parts
             | None \<Rightarrow> parts);
          parts =
            (case speechPractice animal of
               Some sp \<Rightarrow>
                 if hasGKSound sp
                 then push (push parts (ascii ''Now let's practice saying '' @ name animal @ ascii ''!''))
                        (ascii ''Listen for the '' @ toUpperCase (targetSound sp) @ ascii '' sound.'')
                 else parts
             | None \<Rightarrow> parts)
      in join (ascii ''. '') parts)"

subsection \<open>The narration text as the specification describes it\<close>

definition framing :: "jsstring \<Rightarrow> jsstring" where
  "framing cat =
     (if cat = ascii ''dinosaur'' then ascii ''is an Australian dinosaur''
      else ascii ''is one of Australia's deadly creatures'')"

definition enumerated_facts :: "jsstring list \<Rightarrow> jsstring list" where
  "enumerated_facts fs =
     map (\<lambda>(i, f). ascii ''Fact '' @ decimal (i + 1) @ ascii '': '' @ f) (enumerate 0 fs)"

definition facts_section :: "animal \<Rightarrow> jsstring list" where
  "facts_section a =
     (case facts a of
        None \<Rightarrow> []
      | Some fs \<Rightarrow>
          if fs = [] then [] else ascii ''Here are some fun facts:'' # enumerated_facts fs)"

definition practice_applies :: "animal \<Rightarrow> bool" where
  "practice_applies a = (case speechPractice a of None \<Rightarrow> False | Some sp \<Rightarrow> hasGKSound sp)"

definition practice_prompt :: "(jsstring \<Rightarrow> jsstring) \<Rightarrow> animal \<Rightarrow> jsstring list" where
  "practice_prompt toUpperCase a =
     (case speechPractice a of
        None \<Rightarrow> []
      | Some sp \<Rightarrow>
          [ascii ''Now let's practice saying '' @ name a @ ascii ''!'',
           ascii ''Listen for the '' @ toUpperCase (targetSound sp) @ ascii '' sound.''])"


section \<open>localStorage\<close>

text \<open>
  The storage holds items under keys. Reading throws when access to the storage is
  denied, and writing throws when the storage does not accept the value (the quota is
  exceeded); \<open>setItem_log\<close> records every call of \<open>setItem\<close>, accepted or not.
\<close>

record local_storage =
  items :: "(jsstring \<times> jsstring) list"
  readable :: bool
  writable :: bool
  setItem_log :: "(jsstring \<times> jsstring) list"

definition getItem :: "local_storage \<Rightarrow> jsstring \<Rightarrow> error + jsstring option" where
  "getItem ls k = (if readable ls then Inr (map_of (items ls) k) else Inl SecurityError)"

definition setItem :: "local_storage \<Rightarrow> jsstring \<Rightarrow> jsstring \<Rightarrow> local_storage \<times> error option" where
  "setItem ls k v =
     (let ls = ls\<lparr>setItem_log := setItem_log ls @ [(k, v)]\<rparr>
      in if writable ls
         then (ls\<lparr>items := (k, v) # filter (\<lambda>(k', v'). k' \<noteq> k) (items ls)\<rparr>, None)
         else (ls, Some QuotaExceededError))"

section \<open>Collection module\<close>

text \<open>
  The state that the module reads and writes: the set \<open>collection\<close>, the storage, the
  lines written by \<open>console.error\<close> and \<open>console.log\<close> (with the exception logged, if
  any), the text of the element \<open>#progress-count\<close> and the \<open>hidden\<close> flag of the element
  \<open>#celebration\<close> (each \<open>None\<close> when the page has no such element), and the number of
  timeouts that are pending.
\<close>

record state =
  collection :: "json list"
  localStorage :: local_storage
  console :: "(jsstring \<times> error option) list"
  progress_count :: "jsstring option"
  celebration_hidden :: "bool option"
  pending_timeouts :: nat

definition STORAGE_KEY :: jsstring where
  "STORAGE_KEY = ascii ''animal_adventure_collection''"

definition updateProgressDisplay :: "state \<Rightarrow> state" where
  "updateProgressDisplay s =
     (case progress_count s of
        Some t \<Rightarrow> s\<lparr>progress_count := Some (decimal (length (collection s)))\<rparr>
      | None \<Rightarrow> s)"

definition showCelebration :: "state \<Rightarrow> state" where
  "showCelebration s =
     (case celebration_hidden s of
        None \<Rightarrow> s
      | Some h \<Rightarrow> s\<lparr>celebration_hidden := Some False, pending_timeouts := pending_timeouts s + 1\<rparr>)"

text \<open>
  \<open>loadFromStorage\<close>: the body of the \<open>try\<close> block first, then the function with its
  \<open>catch\<close> clause. A stored value that is \<open>null\<close> or the empty string is falsy and
  leaves the set as it is.
\<close>

definition loadFromStorage_try :: "state \<Rightarrow> error + state" where
  "loadFromStorage_try s =
     (case getItem (localStorage s) STORAGE_KEY of
        Inl e \<Rightarrow> Inl e
      | Inr saved \<Rightarrow>
          (case saved of
             None \<Rightarrow> Inr s
           | Some text \<Rightarrow>
               if text = [] then Inr s
               else
                 (case JSON_parse text of
                    Inl e \<Rightarrow> Inl e
                  | Inr parsed \<Rightarrow>
                      (case new_Set parsed of
                         Inl e \<Rightarrow> Inl e
                       | Inr c \<Rightarrow> Inr (s\<lparr>collection := c\<rparr>)))))"

definition loadFromStorage :: "state \<Rightarrow> error + state" where
  "loadFromStorage s =
     (case loadFromStorage_try s of
        Inr s' \<Rightarrow> Inr s'
      | Inl e \<Rightarrow>
          Inr (s\<lparr>console := console s @ [(ascii ''Error loading collection:'', Some e)],
                 collection := []\<rparr>))"

text \<open>
  The stored values from which nothing is restored: the item cannot be read, is absent or
  empty, is not JSON, or is JSON for a value that cannot be iterated.
\<close>

definition iterable :: "json \<Rightarrow> bool" where
  "iterable v = (case v of JArray xs \<Rightarrow> True | JString s \<Rightarrow> True | _ \<Rightarrow> False)"

definition restores_nothing :: "local_storage \<Rightarrow> bool" where
  "restores_nothing ls =
     (case getItem ls STORAGE_KEY of
        Inl e \<Rightarrow> True
      | Inr None \<Rightarrow> True
      | Inr (Some text) \<Rightarrow>
          text = [] \<or> (case JSON_parse text of Inl e \<Rightarrow> True | Inr v \<Rightarrow> \<not> iterable v))"

definition saveToStorage :: "state \<Rightarrow> error + state" where
  "saveToStorage s =
     (case setItem (localStorage s) STORAGE_KEY (JSON_stringify (JArray (collection s))) of
        (ls, None) \<Rightarrow> Inr (s\<lparr>localStorage := ls\<rparr>)
      | (ls, Some e) \<Rightarrow>
          Inr (s\<lparr>localStorage := ls,
                 console := console s @ [(ascii ''Error saving collection:'', Some e)]\<rparr>))"

definition collect :: "jsstring \<Rightarrow> state \<Rightarrow> error + bool \<times> state" where
  "collect animalId s =
     (if Set_has (collection s) (JString animalId) then Inr (False, s)
      else
        (case saveToStorage (s\<lparr>collection := Set_add (collection s) (JString animalId)\<rparr>) of
           Inl e \<Rightarrow> Inl e
         | Inr s' \<Rightarrow> Inr (True, showCelebration (updateProgressDisplay s'))))"

definition isCollected :: "jsstring \<Rightarrow> state \<Rightarrow> bool" where
  "isCollected animalId s = Set_has (collection s) (JString animalId)"

definition getCollectedIds :: "state \<Rightarrow> json list" where
  "getCollectedIds s = collection s"

text \<open>
  \<open>getProgress(total = 20)\<close>: the argument is \<open>None\<close> when the caller passes none. The
  size of a set is an integer below \<open>2^53\<close> and is a number as it stands.
\<close>

record progress =
  collected :: nat
  total' :: number
  percentage :: number

definition getProgress :: "number option \<Rightarrow> state \<Rightarrow> progress" where
  "getProgress total_arg s =
     (let total = (case total_arg of None \<Rightarrow> Finite 20 | Some t \<Rightarrow> t);
          count = length (collection s)
      in \<lparr>collected = count,
          total' = total,
          percentage = Math_round (num_mul (num_div (Finite (of_nat count)) total) (Finite 100))\<rparr>)"

definition reset :: "state \<Rightarrow> error + state" where
  "reset s =
     (case saveToStorage (s\<lparr>collection := []\<rparr>) of
        Inl e \<Rightarrow> Inl e
      | Inr s' \<Rightarrow> Inr (updateProgressDisplay s'))"

text \<open>
  \<open>init\<close> restores the set and shows the progress; the lookups of the modal and the grid
  and the listeners it installs do not touch the state above. A module starts with the
  empty set (\<open>fresh_state\<close>).
\<close>

definition init :: "state \<Rightarrow> error + state" where
  "init s =
     (case loadFromStorage s of
        Inl e \<Rightarrow> Inl e
      | Inr s' \<Rightarrow>
          Inr ((updateProgressDisplay s')
                 \<lparr>console := console s' @ [(ascii ''Collection module initialized'', None)]\<rparr>))"

definition fresh_state :: "local_storage \<Rightarrow> jsstring option \<Rightarrow> bool option \<Rightarrow> state" where
  "fresh_state ls progress_el celebration_el =
     \<lparr>collection = [], localStorage = ls, console = [], progress_count = progress_el,
      celebration_hidden = celebration_el, pending_timeouts = 0\<rparr>"


section \<open>The gallery\<close>

text \<open>
  The part of the DOM that \<open>createGalleryItem\<close> builds: an element has a tag, a class
  attribute, further attributes, a text content, children and click listeners. The only
  listener the gallery installs closes the gallery and opens the card of an animal.
\<close>

datatype handler = ShowCard animal

datatype element =
  Element (tagName: jsstring) (className: jsstring) (attributes: "(jsstring \<times> jsstring) list")
    (textContent: jsstring) (children: "element list") (listeners: "handler list")

definition createElement :: "jsstring \<Rightarrow> element" where
  "createElement tag = Element tag [] [] [] [] []"

fun set_className :: "jsstring \<Rightarrow> element \<Rightarrow> element" where
  "set_className c (Element t _ as tx ch ls) = Element t c as tx ch ls"

fun set_attribute :: "jsstring \<Rightarrow> jsstring \<Rightarrow> element \<Rightarrow> element" where
  "set_attribute k v (Element t c as tx ch ls) =
     Element t c ((k, v) # filter (\<lambda>(k', v'). k' \<noteq> k) as) tx ch ls"

fun set_textContent :: "jsstring \<Rightarrow> element \<Rightarrow> element" where
  "set_textContent tx (Element t c as _ ch ls) = Element t c as tx ch ls"

fun appendChild :: "element \<Rightarrow> element \<Rightarrow> element" where
  "appendChild (Element t c as tx ch ls) child = Element t c as tx (ch @ [child]) ls"

fun addEventListener :: "element \<Rightarrow> handler \<Rightarrow> element" where
  "addEventListener (Element t c as tx ch ls) h = Element t c as tx ch (ls @ [h])"

text \<open>
  \<open>classList\<close> is the ordered set of the tokens of the class attribute, which are
  separated by ASCII whitespace. \<open>toggle(token, force)\<close> adds the token when \<open>force\<close> is
  true and removes it when \<open>force\<close> is false; the attribute is rewritten only when the
  set changes.
\<close>

definition is_ascii_whitespace :: "16 word \<Rightarrow> bool" where
  "is_ascii_whitespace c = (c = 0x09 \<or> c = 0x0A \<or> c = 0x0C \<or> c = 0x0D \<or> c = 0x20)"

fun split_tokens :: "jsstring \<Rightarrow> jsstring \<Rightarrow> jsstring list" where
  "split_tokens word [] = (if word = [] then [] else [word])"
| "split_tokens word (c # cs) =
     (if is_ascii_whitespace c
      then (if word = [] then split_tokens [] cs else word # split_tokens [] cs)
      else split_tokens (word @ [c]) cs)"

definition ordered_set :: "'a list \<Rightarrow> 'a list" where
  "ordered_set xs = foldl (\<lambda>acc x. if x \<in> set acc then acc else acc @ [x]) [] xs"

definition classList :: "jsstring \<Rightarrow> jsstring list" where
  "classList cls = ordered_set (split_tokens [] cls)"

definition toggle_class :: "jsstring \<Rightarrow> bool \<Rightarrow> jsstring \<Rightarrow> jsstring" where
  "toggle_class token force cls =
     (if token \<in> set (classList cls)
      then (if force then cls else join (ascii '' '') (removeAll token (classList cls)))
      else (if force then join (ascii '' '') (classList cls @ [token]) else cls))"

definition classList_toggle :: "jsstring \<Rightarrow> bool \<Rightarrow> element \<Rightarrow> element" where
  "classList_toggle token force e = set_className (toggle_class token force (className e)) e"

definition createGalleryItem :: "animal \<Rightarrow> state \<Rightarrow> element" where
  "createGalleryItem animal s =
     (let isOwned = Set_has (collection s) (JString (id' animal));
          item = createElement (ascii ''div'');
          item = set_className (ascii ''collection-item collection-item--'' @ rarity animal) item;
          item = classList_toggle (ascii ''collection-item--collected'') isOwned item;
          item = classList_toggle (ascii ''collection-item--undiscovered'') (\<not> isOwned) item;
          item =
            (if isOwned then
               let img = createElement (ascii ''img'');
                   img = set_className (ascii ''collection-item__image'') img;
                   img = set_attribute (ascii ''src'') (image' animal) img;
                   img = set_attribute (ascii ''alt'') (name animal) img
               in appendChild item img
             else
               let silhouette = createElement (ascii ''div'');
                   silhouette = set_className (ascii ''collection-item__silhouette'') silhouette
               in appendChild item silhouette);
          name_el = createElement (ascii ''span'');
          name_el = set_className (ascii ''collection-item__name'') name_el;
          name_el = set_textContent (if isOwned then name animal else ascii ''???'') name_el;
          item = appendChild item name_el;
          item = (if isOwned then addEventListener item (ShowCard animal) else item)
      in item)"

text \<open>
  The class attribute of the item of an animal that is not collected, as a function of
  the rarity.
\<close>

definition placeholder_class :: "jsstring \<Rightarrow> jsstring" where
  "placeholder_class r =
     toggle_class (ascii ''collection-item--undiscovered'') True
       (toggle_class (ascii ''collection-item--collected'') False
          (ascii ''collection-item collection-item--'' @ r))"

text \<open>\<open>renderGallery\<close> fills the grid with one item for every animal of the catalog.\<close>

definition renderGallery :: "animal list \<Rightarrow> state \<Rightarrow> element list" where
  "renderGallery animals s = map (\<lambda>animal. createGalleryItem animal s) animals"

text \<open>Everything an element and its descendants carry: texts and attribute values, and tags.\<close>

fun element_strings :: "element \<Rightarrow> jsstring list" where
  "element_strings (Element t c as tx ch ls) =
     tx # map snd as @ concat (map element_strings ch)"

fun element_tags :: "element \<Rightarrow> jsstring list" where
  "element_tags (Element t c as tx ch ls) = t # concat (map element_tags ch)"

fun element_listeners :: "element \<Rightarrow> handler list" where
  "element_listeners (Element t c as tx ch ls) = ls @ concat (map element_listeners ch)"


section \<open>AnimalData module and the application start\<close>

text \<open>
  What one \<open>fetch\<close> of the catalog can do: be rejected (the source is unreachable), or
  answer with a status and a body; \<open>response.json()\<close> yields a value or is rejected when
  the body is not JSON. \<open>fetch_plan\<close> gives the outcome of the first, second, ... fetch.
\<close>

datatype fetch_outcome =
    Rejected
  | Response (ok: bool) (status: nat) (body: "json option")

type_synonym fetch_plan = "nat \<Rightarrow> fetch_outcome"

text \<open>
  The state of the module: the catalog \<open>animals\<close> (the empty array at first) and the flag
  \<open>loaded\<close>; \<open>fetches\<close> counts the calls of \<open>fetch\<close> and \<open>data_console\<close> holds the lines
  that the module logs, each with the error logged after the message, if any.
\<close>

record animal_data =
  animals :: json
  loaded :: bool
  fetches :: nat
  data_console :: "(jsstring \<times> error option) list"


text \<open>
  The property \<open>length\<close> of a value, \<open>None\<close> being \<open>undefined\<close>: of an array and of a
  string it is a number, of an object it is the value of an own property of this name,
  of \<open>null\<close> reading it throws, and on a number or a boolean it is \<open>undefined\<close>.
\<close>

definition js_length :: "json \<Rightarrow> error + json option" where
  "js_length v =
     (case v of
        JArray xs \<Rightarrow> Inr (Some (JNumber (Finite (of_nat (length xs)))))
      | JString s \<Rightarrow> Inr (Some (JNumber (Finite (of_nat (length s)))))
      | JObject ms \<Rightarrow> Inr (map_of ms (ascii ''length''))
      | JNull \<Rightarrow> Inl TypeError
      | _ \<Rightarrow> Inr None)"

text \<open>
  The string that a template literal inserts for a value. An array is the join by
  commas of its elements, \<open>null\<close> elements being empty. An object of \<open>JSON.parse\<close> is
  \<open>[object Object]\<close>, unless it has an own property \<open>toString\<close>: that property hides the
  inherited method and is no function, and the inherited \<open>valueOf\<close> (as well as an own
  property of this name) yields no primitive value, so the conversion throws.
\<close>

fun ToString :: "json \<Rightarrow> error + jsstring"
  and ToString_elements :: "json list \<Rightarrow> error + jsstring list" where
  "ToString JNull = Inr (ascii ''null'')"
| "ToString (JBool b) = Inr (if b then ascii ''true'' else ascii ''false'')"
| "ToString (JNumber n) = Inr (Number_toString n)"
| "ToString (JString s) = Inr s"
| "ToString (JArray xs) =
     (case ToString_elements xs of Inl e \<Rightarrow> Inl e | Inr ss \<Rightarrow> Inr (join (ascii '','') ss))"
| "ToString (JObject ms) =
     (if map_of ms (ascii ''toString'') = None then Inr (ascii ''[object Object]'')
      else Inl TypeError)"
| "ToString_elements [] = Inr []"
| "ToString_elements (x # xs) =
     (case (if x = JNull then Inr [] else ToString x) of
        Inl e \<Rightarrow> Inl e
      | Inr s \<Rightarrow>
          (case ToString_elements xs of Inl e \<Rightarrow> Inl e | Inr ss \<Rightarrow> Inr (s # ss)))"


text \<open>
  The body of the \<open>try\<close> block of \<open>loadAnimals\<close>: the fetch, the status check, the parse
  of the body, the two assignments and the log line. An exception leaves the assignments
  made before it in place.
\<close>

definition loadAnimals_try :: "fetch_outcome \<Rightarrow> animal_data \<Rightarrow> animal_data \<times> (error + json)" where
  "loadAnimals_try outcome d =
     (let d = d\<lparr>fetches := fetches d + 1\<rparr>
      in case outcome of
           Rejected \<Rightarrow> (d, Inl TypeError)
         | Response is_ok st b \<Rightarrow>
             if \<not> is_ok then (d, Inl (HttpError st))
             else
               (case b of
                  None \<Rightarrow> (d, Inl SyntaxError)
                | Some v \<Rightarrow>
                    let d = d\<lparr>animals := v, loaded := True\<rparr>
                    in case js_length v of
                         Inl e \<Rightarrow> (d, Inl e)
                       | Inr n \<Rightarrow>
                           (case (case n of None \<Rightarrow> Inr (ascii ''undefined'') | Some l \<Rightarrow> ToString l) of
                              Inl e \<Rightarrow> (d, Inl e)
                            | Inr text \<Rightarrow>
                                (d\<lparr>data_console := data_console d @
                                     [(ascii ''Loaded '' @ text @ ascii '' animals'', None)]\<rparr>,
                                 Inr v))))"

definition loadAnimals :: "fetch_plan \<Rightarrow> animal_data \<Rightarrow> animal_data \<times> (error + json)" where
  "loadAnimals plan d =
     (if loaded d then (d, Inr (animals d))
      else
        (case loadAnimals_try (plan (fetches d)) d of
           (d', Inr v) \<Rightarrow> (d', Inr v)
         | (d', Inl e) \<Rightarrow>
             (d'\<lparr>data_console := data_console d' @
                  [(ascii ''Error loading animal data:'', Some e)]\<rparr>,
              Inr (JArray []))))"








section \<open>Calls in sequence\<close>

text \<open>\<open>collect(id)\<close> called \<open>n\<close> times in a row, with the results of the calls.\<close>

fun repeat_collect :: "nat \<Rightarrow> jsstring \<Rightarrow> state \<Rightarrow> error + bool list \<times> state" where
  "repeat_collect 0 i s = Inr ([], s)"
| "repeat_collect (Suc n) i s =
     (case collect i s of
        Inl e \<Rightarrow> Inl e
      | Inr (r, s') \<Rightarrow>
          (case repeat_collect n i s' of
             Inl e \<Rightarrow> Inl e
           | Inr (rs, s'') \<Rightarrow> Inr (r # rs, s'')))"



section \<open>Example inputs\<close>

definition empty_storage :: local_storage where
  "empty_storage = \<lparr>items = [], readable = True, writable = True, setItem_log = []\<rparr>"

definition full_storage :: local_storage where
  "full_storage = \<lparr>items = [], readable = True, writable = False, setItem_log = []\<rparr>"

definition storage_holding :: "jsstring \<Rightarrow> local_storage" where
  "storage_holding text =
     \<lparr>items = [(STORAGE_KEY, text)], readable = True, writable = True, setItem_log = []\<rparr>"

definition quoted_ab :: jsstring where
  "quoted_ab = [0x22, 0x61, 0x62, 0x22]"

definition state_with :: "jsstring list \<Rightarrow> local_storage \<Rightarrow> state" where
  "state_with ids ls = (fresh_state ls None None)\<lparr>collection := map JString ids\<rparr>"

definition numbered_ids :: "nat \<Rightarrow> jsstring list" where
  "numbered_ids n = map decimal [0..<n]"

definition emu :: animal where
  "emu =
     \<lparr>id' = ascii ''emu'', name = ascii ''Emu'', category = ascii ''deadly'',
      habitat = ascii ''land'', rarity = ascii ''common'', image' = ascii ''images/emu.png'',
      facts = Some [ascii ''Fast'', ascii ''Loud''], speechPractice = None\<rparr>"




definition kunbarrasaurus :: animal where
  "kunbarrasaurus =
     \<lparr>id' = ascii ''kunbarrasaurus'', name = ascii ''Kunbarrasaurus'',
      category = ascii ''dinosaur'', habitat = ascii ''land'', rarity = ascii ''rare'',
      image' = ascii ''images/kunbarrasaurus.png'', facts = None,
      speechPractice =
        Some \<lparr>hasGKSound = True, phonetic = ascii ''kun-BAH-rah-SORE-us'',
              targetSound = ascii ''k'', tip = ascii ''Start with a K sound''\<rparr>\<rparr>"

text \<open>On ASCII text, \<open>toUpperCase\<close> maps the letters a to z to A to Z.\<close>

definition ascii_upper :: "jsstring \<Rightarrow> jsstring" where
  "ascii_upper s = map (\<lambda>c. if 0x61 \<le> c \<and> c \<le> 0x7A then c - 0x20 else c) s"




section \<open>Properties of the speech module\<close>

lemma forEach_fact_enumerate:
  "forEach_fact fs i parts =
     parts @ map (\<lambda>(j, f). ascii ''Fact '' @ decimal (j + 1) @ ascii '': '' @ f) (enumerate i fs)"
  by (induction fs arbitrary: i parts) (simp_all add: push_def)

text \<open>
  Claim C8. The narration text is a function of the record alone (and of the platform's
  upper-casing): the parts are the name, the framing sentence chosen by the category, the
  facts in order as "Fact 1: ...", "Fact 2: ..." after a heading sentence when there is at
  least one fact, and the two-sentence practice prompt naming the target sound exactly
  when the record's practice flag is set; the parts are joined by ". ".
\<close>

theorem buildSpeechText_assembles:
  "buildSpeechText toUpperCase a =
     join (ascii ''. '')
       ([name a, framing (category a)] @ facts_section a @
        (if practice_applies a then practice_prompt toUpperCase a else []))"
  by (simp add: buildSpeechText_def push_def framing_def facts_section_def enumerated_facts_def
      practice_applies_def practice_prompt_def forEach_fact_enumerate
      split: option.split)

lemma decimal_digit: "n < 10 \<Longrightarrow> decimal n = [digit n]"
  by (simp add: decimal.simps)

theorem buildSpeechText_assembles_witness:
  "buildSpeechText ascii_upper emu =
     ascii ''Emu. is one of Australia's deadly creatures. Here are some fun facts:. Fact 1: Fast. Fact 2: Loud'' \<and>
   buildSpeechText ascii_upper kunbarrasaurus =
     ascii ''Kunbarrasaurus. is an Australian dinosaur. Now let's practice saying Kunbarrasaurus!. Listen for the K sound.''"
  using buildSpeechText_assembles [of ascii_upper emu]
    buildSpeechText_assembles [of ascii_upper kunbarrasaurus]
  by (simp add: emu_def kunbarrasaurus_def framing_def facts_section_def enumerated_facts_def
      practice_applies_def practice_prompt_def ascii_upper_def ascii_def decimal_digit digit_def)


section \<open>Properties of the number model\<close>

text \<open>Quotient and product of two finite numbers that are not \<open>-0\<close>.\<close>

lemma num_div_Finite [simp]:
  "num_div (Finite x) (Finite y) =
     (if y = 0 then (if x = 0 then NaN else if 0 < x then PosInfinity else NegInfinity)
      else if x = 0 then (if y < 0 then NegZero else Finite 0)
      else round64 (x / y))"
  by (simp add: num_div_def signed_zero_def signed_infinity_def)

lemma num_mul_Finite [simp]:
  "num_mul (Finite x) (Finite y) =
     (if x = 0 \<or> y = 0 then (if (x < 0) \<noteq> (y < 0) then NegZero else Finite 0)
      else round64 (x * y))"
  by (simp add: num_mul_def signed_zero_def signed_infinity_def)

lemma positive_zero_string [simp]: "positive_zero (JString s) = JString s"
  by (simp add: positive_zero_def)

text \<open>
  In the normal range, rounding to the nearest double changes a positive number by at
  most the fraction \<open>2^-53\<close> of itself.
\<close>

lemma ilog2_bounds:
  assumes "0 < q"
  shows "2 powi (ilog2 q) \<le> q \<and> q < 2 powi (ilog2 q + 1)"
proof -
  obtain a b where ab: "quotient_of q = (a, b)" by (cases "quotient_of q")
  then have b: "0 < b" and q: "q = of_int a / of_int b"
    using quotient_of_denom_pos [of q a b] quotient_of_div [of q a b] by simp_all
  with assms have a: "0 < a" by (simp add: zero_less_divide_iff)
  define la lb where "la = bitlen a" and "lb = bitlen b"
  from bitlen_bounds [OF a] have a1: "2 ^ nat (la - 1) \<le> a" and a2: "a < 2 ^ nat la"
    by (simp_all add: la_def)
  from bitlen_bounds [OF b] have b1: "2 ^ nat (lb - 1) \<le> b" and b2: "b < 2 ^ nat lb"
    by (simp_all add: lb_def)
  have la: "1 \<le> la" and lb: "1 \<le> lb"
    using a b bitlen_eq_zero_iff [of a] bitlen_eq_zero_iff [of b] bitlen_nonneg [of a] bitlen_nonneg [of b]
    by (simp_all add: la_def lb_def)
  have A1: "(2::rat) powi (la - 1) \<le> of_int a"
  proof -
    have "(of_int (2 ^ nat (la - 1)) :: rat) \<le> of_int a" using a1 by (simp only: of_int_le_iff)
    then show ?thesis using la by (simp add: power_int_def)
  qed
  have A2: "of_int a < (2::rat) powi la"
  proof -
    have "(of_int a :: rat) < of_int (2 ^ nat la)" using a2 by (simp only: of_int_less_iff)
    then show ?thesis using la by (simp add: power_int_def)
  qed
  have B1: "(2::rat) powi (lb - 1) \<le> of_int b"
  proof -
    have "(of_int (2 ^ nat (lb - 1)) :: rat) \<le> of_int b" using b1 by (simp only: of_int_le_iff)
    then show ?thesis using lb by (simp add: power_int_def)
  qed
  have B2: "of_int b < (2::rat) powi lb"
  proof -
    have "(of_int b :: rat) < of_int (2 ^ nat lb)" using b2 by (simp only: of_int_less_iff)
    then show ?thesis using lb by (simp add: power_int_def)
  qed
  have bpos: "(0::rat) < of_int b" using b by simp
  have upper: "q < 2 powi (la - lb + 1)"
  proof -
    have "q * of_int b = of_int a" using q bpos by simp
    also have "\<dots> < 2 powi la" by (rule A2)
    also have "\<dots> = 2 powi (la - lb + 1) * 2 powi (lb - 1)"
      by (simp add: power_int_add [symmetric])
    also have "\<dots> \<le> 2 powi (la - lb + 1) * of_int b"
      using B1 by (intro mult_left_mono) simp_all
    finally show ?thesis using bpos by simp
  qed
  have lower: "2 powi (la - lb - 1) < q"
  proof -
    have "(2::rat) powi (la - lb - 1) * of_int b < 2 powi (la - lb - 1) * 2 powi lb"
      using B2 by (intro mult_strict_left_mono) simp_all
    also have "\<dots> = 2 powi (la - 1)"
      by (simp add: power_int_add [symmetric])
    also have "\<dots> \<le> of_int a" by (rule A1)
    also have "\<dots> = q * of_int b" using q bpos by simp
    finally show ?thesis using bpos by simp
  qed
  show ?thesis
  proof (cases "2 powi (la - lb) \<le> q")
    case True
    then have "ilog2 q = la - lb" by (simp add: ilog2_def ab la_def lb_def)
    with True upper show ?thesis by simp
  next
    case False
    then have "ilog2 q = la - lb - 1" by (simp add: ilog2_def ab la_def lb_def)
    with False lower show ?thesis by simp
  qed
qed

lemma round_half_even_error: "\<bar>of_int (round_half_even x) - x\<bar> \<le> 1 / 2"
proof -
  have "of_int \<lfloor>x\<rfloor> \<le> x" "x < of_int \<lfloor>x\<rfloor> + 1" by linarith+
  then show ?thesis
    by (auto simp: round_half_even_def Let_def abs_le_iff)
qed


lemma round64_error:
  assumes lo: "2 powi a \<le> q" and hi: "q < 2 powi b" and a: "- 1022 \<le> a" and b: "b \<le> 1023"
  shows "\<exists>v. round64 q = Finite v \<and> \<bar>v - q\<bar> \<le> q / 2 ^ 53"
proof -
  have two: "(1::rat) \<le> 2" by simp
  have qpos: "0 < q"
    using lo zero_less_power_int [of "2::rat" a] by linarith
  define i where "i = ilog2 q"
  have i1: "2 powi i \<le> q" and i2: "q < 2 powi (i + 1)"
    using ilog2_bounds [OF qpos] by (simp_all add: i_def)
  have ia: "a \<le> i"
  proof (rule ccontr)
    assume "\<not> a \<le> i"
    then have "i + 1 \<le> a" by simp
    then have "(2::rat) powi (i + 1) \<le> 2 powi a" by (rule power_int_increasing) simp
    with lo i2 show False by linarith
  qed
  have ib: "i < b"
  proof (rule ccontr)
    assume "\<not> i < b"
    then have "b \<le> i" by simp
    then have "(2::rat) powi b \<le> 2 powi i" by (rule power_int_increasing) simp
    with hi i1 show False by linarith
  qed
  define e where "e = i - 52"
  have e: "max (ilog2 \<bar>q\<bar> - 52) (- 1074) = e"
    using qpos ia a by (simp add: e_def i_def)
  define m where "m = round_half_even (q / 2 powi e)"
  define v where "v = of_int m * (2::rat) powi e"
  have epos: "(0::rat) < 2 powi e" by simp
  have "\<bar>of_int m - q / 2 powi e\<bar> \<le> 1 / 2"
    unfolding m_def by (rule round_half_even_error)
  then have "\<bar>of_int m - q / 2 powi e\<bar> * 2 powi e \<le> 1 / 2 * 2 powi e"
    using epos by (intro mult_right_mono) simp_all
  moreover have "\<bar>of_int m - q / 2 powi e\<bar> * 2 powi e = \<bar>v - q\<bar>"
  proof -
    have "\<bar>of_int m - q / 2 powi e\<bar> * 2 powi e = \<bar>(of_int m - q / 2 powi e) * 2 powi e\<bar>"
      using epos by (simp add: abs_mult)
    also have "(of_int m - q / 2 powi e) * 2 powi e = v - q"
      using epos by (simp add: v_def algebra_simps)
    finally show ?thesis .
  qed
  ultimately have err: "\<bar>v - q\<bar> \<le> 2 powi e / 2" by simp
  have "(2::rat) powi e = 2 powi i / 2 ^ 52"
    by (simp add: e_def power_int_diff)
  with i1 have e_le: "2 powi e \<le> q / 2 ^ 52"
    by (simp add: divide_right_mono)
  have bound: "\<bar>v - q\<bar> \<le> q / 2 ^ 53"
  proof -
    have "2 powi e / 2 \<le> q / 2 ^ 52 / 2" using e_le by (simp add: divide_right_mono)
    also have "\<dots> = q / 2 ^ 53" by simp
    finally show ?thesis using err by linarith
  qed
  have "q / 2 ^ 53 \<le> q" using qpos by (simp add: divide_le_eq)
  with bound have "\<bar>v - q\<bar> \<le> q" by (rule order_trans)
  then have "v \<le> 2 * q" by linarith
  also have "\<dots> < 2 * 2 powi b" using hi by simp
  also have "\<dots> = 2 powi (b + 1)" by (simp add: power_int_add)
  also have "\<dots> \<le> 2 powi 1024" using b by (intro power_int_increasing) simp_all
  finally have no_overflow: "\<not> 2 powi 1024 \<le> v" by simp
  have "round64 q = Finite v"
    unfolding round64_def Let_def e
    using qpos no_overflow by (simp add: v_def m_def)
  with bound show ?thesis by blast
qed

text \<open>
  A number \<open>N / t\<close> that is not halfway between two integers is at least \<open>1 / (2 t)\<close>
  away from every such midpoint, so that a value closer to it than that rounds to the
  same integer.
\<close>

lemma round_to_nearest_stable:
  fixes X v :: rat
  assumes t: "0 < t" and N: "X * of_nat t = of_nat N" and nontie: "frac X \<noteq> 1 / 2"
    and close: "\<bar>v - X\<bar> < 1 / (2 * of_nat t)"
  shows "\<lfloor>v + 1 / 2\<rfloor> = \<lfloor>X + 1 / 2\<rfloor>"
proof -
  define k where "k = \<lfloor>X + 1 / 2\<rfloor>"
  define f where "f = X + 1 / 2 - of_int k"
  have f0: "0 \<le> f" and f1: "f < 1"
    unfolding f_def k_def by linarith+
  have tpos: "(0::rat) < 2 * of_nat t" using t by simp
  have int: "f * (2 * of_nat t) = of_int (2 * int N + int t - 2 * int t * k)"
  proof -
    have "f * (2 * of_nat t) = 2 * (X * of_nat t) + of_nat t - 2 * of_nat t * of_int k"
      by (simp add: f_def algebra_simps)
    also have "\<dots> = of_int (2 * int N + int t - 2 * int t * k)"
      by (simp add: N)
    finally show ?thesis .
  qed
  have fne: "f \<noteq> 0"
  proof
    assume "f = 0"
    then have X: "X = of_int (k - 1) + 1 / 2" by (simp add: f_def)
    have "\<lfloor>X\<rfloor> = k - 1" unfolding X by (rule floor_unique) simp_all
    then have "frac X = 1 / 2" by (simp add: frac_def X)
    with nontie show False by simp
  qed
  have lower: "1 / (2 * of_nat t) \<le> f"
  proof -
    have "0 < f * (2 * of_nat t)" using f0 fne tpos by simp
    then have "0 < 2 * int N + int t - 2 * int t * k" unfolding int by (simp only: of_int_0_less_iff)
    then have "1 \<le> 2 * int N + int t - 2 * int t * k" by simp
    then have "(1::rat) \<le> of_int (2 * int N + int t - 2 * int t * k)" by (simp only: of_int_1_le_iff)
    then have "1 \<le> f * (2 * of_nat t)" by (simp only: int)
    then show ?thesis using tpos by (simp add: divide_le_eq)
  qed
  have upper: "1 / (2 * of_nat t) \<le> 1 - f"
  proof -
    have "(1 - f) * (2 * of_nat t) = of_int (2 * int t - (2 * int N + int t - 2 * int t * k))"
      using int by (simp add: algebra_simps)
    moreover have "0 < (1 - f) * (2 * of_nat t)" using f1 tpos by simp
    ultimately have "(0::rat) < of_int (2 * int t - (2 * int N + int t - 2 * int t * k))" by simp
    then have "0 < 2 * int t - (2 * int N + int t - 2 * int t * k)" by (simp only: of_int_0_less_iff)
    then have "1 \<le> 2 * int t - (2 * int N + int t - 2 * int t * k)" by simp
    then have "(1::rat) \<le> of_int (2 * int t - (2 * int N + int t - 2 * int t * k))"
      by (simp only: of_int_1_le_iff)
    then have "1 \<le> (1 - f) * (2 * of_nat t)"
      using \<open>(1 - f) * (2 * of_nat t) = of_int (2 * int t - (2 * int N + int t - 2 * int t * k))\<close>
      by simp
    then show ?thesis using tpos by (simp add: divide_le_eq)
  qed
  have "\<lfloor>v + 1 / 2\<rfloor> = k"
  proof (rule floor_unique)
    have "v + 1 / 2 = of_int k + f + (v - X)" by (simp add: f_def)
    with close lower show "of_int k \<le> v + 1 / 2" by (simp add: abs_less_iff)
    have "v + 1 / 2 = of_int k + f + (v - X)" by (simp add: f_def)
    with close upper show "v + 1 / 2 < of_int k + 1" by (simp add: abs_less_iff)
  qed
  then show ?thesis by (simp add: k_def)
qed


lemma percentage_exact:
  assumes t: "0 < t" "t < 2 ^ 53" and n: "n < 2 ^ 43"
    and nontie: "frac (100 * of_nat n / of_nat t :: rat) \<noteq> 1 / 2"
  shows "Math_round (num_mul (num_div (Finite (of_nat n)) (Finite (of_nat t))) (Finite 100)) =
         Finite (of_int \<lfloor>100 * of_nat n / of_nat t + 1 / 2 :: rat\<rfloor>)"
proof (cases "n = 0")
  case True
  then show ?thesis using t by (simp add: round64_def)
next
  case False
  define x :: rat where "x = of_nat n / of_nat t"
  have tpos: "(0::rat) < of_nat t" using t by simp
  have npos: "(1::rat) \<le> of_nat n" using False by simp
  have xpos: "0 < x" using False t by (simp add: x_def)
  have tlt: "(of_nat t :: rat) < 2 ^ 53"
  proof -
    have "(of_nat t :: rat) < of_nat (2 ^ 53)" using t(2) by (simp only: of_nat_less_iff)
    then show ?thesis by simp
  qed
  have nlt: "(of_nat n :: rat) < 2 ^ 43"
  proof -
    have "(of_nat n :: rat) < of_nat (2 ^ 43)" using n by (simp only: of_nat_less_iff)
    then show ?thesis by simp
  qed
  have x_lo: "2 powi (- 53) \<le> x"
  proof -
    have "(1::rat) / 2 ^ 53 \<le> 1 / of_nat t"
      using tpos tlt by (simp add: frac_le)
    also have "\<dots> \<le> of_nat n / of_nat t"
      using npos tpos by (simp add: divide_right_mono)
    finally show ?thesis by (simp add: x_def power_int_minus_divide)
  qed
  have x_le_n: "x \<le> of_nat n"
  proof -
    have "(1::rat) \<le> of_nat t" using t(1) by simp
    then have "of_nat n / of_nat t \<le> (of_nat n :: rat) / 1"
      by (intro divide_left_mono) simp_all
    then show ?thesis by (simp add: x_def)
  qed
  have x_hi: "x < 2 powi 43" using x_le_n nlt by simp
  obtain v1 where v1: "round64 x = Finite v1" "\<bar>v1 - x\<bar> \<le> x / 2 ^ 53"
    using round64_error [OF x_lo x_hi] by auto
  have small: "x / 2 ^ 53 \<le> x / 2" using xpos by (simp add: frac_le)
  have "\<bar>v1 - x\<bar> \<le> x / 2" using v1(2) small by (rule order_trans)
  then have v1_lo: "x / 2 \<le> v1" and v1_hi: "v1 \<le> 2 * x"
    using xpos by linarith+
  define y where "y = v1 * 100"
  have y_lo: "2 powi (- 54) \<le> y"
  proof -
    have "2 powi (- 53) / 2 \<le> x / 2" using x_lo by (simp add: divide_right_mono)
    also have "\<dots> \<le> v1" by (rule v1_lo)
    also have "\<dots> \<le> y" using v1_lo xpos by (simp add: y_def)
    finally show ?thesis by (simp add: power_int_minus_divide)
  qed
  have y_hi: "y < 2 powi 51"
  proof -
    have "y \<le> 2 * x * 100" using v1_hi by (simp add: y_def)
    also have "\<dots> < 2 * 2 ^ 43 * 100" using x_le_n nlt by simp
    also have "\<dots> \<le> 2 ^ 51" by simp
    finally show ?thesis by simp
  qed
  obtain v2 where v2: "round64 y = Finite v2" "\<bar>v2 - y\<bar> \<le> y / 2 ^ 53"
    using round64_error [OF y_lo y_hi] by auto
  define X where "X = 100 * x"
  have "\<bar>v2 - X\<bar> \<le> \<bar>v2 - y\<bar> + \<bar>y - X\<bar>" by simp
  also have "\<bar>y - X\<bar> = 100 * \<bar>v1 - x\<bar>"
  proof -
    have "\<bar>y - X\<bar> = \<bar>100 * (v1 - x)\<bar>" by (simp add: y_def X_def algebra_simps)
    also have "\<dots> = \<bar>100\<bar> * \<bar>v1 - x\<bar>" by (rule abs_mult)
    finally show ?thesis by simp
  qed
  also have "\<bar>v2 - y\<bar> + 100 * \<bar>v1 - x\<bar> \<le> y / 2 ^ 53 + 100 * (x / 2 ^ 53)"
    using v2(2) v1(2) by simp
  also have "\<dots> \<le> 2 * x * 100 / 2 ^ 53 + 100 * (x / 2 ^ 53)"
    using v1_hi by (simp add: y_def divide_right_mono)
  also have "\<dots> = 300 * x / 2 ^ 53" by simp
  finally have err: "\<bar>v2 - X\<bar> \<le> 300 * x / 2 ^ 53" .
  have "300 * x / 2 ^ 53 < 1 / (2 * of_nat t)"
  proof -
    have "300 * x * (2 * of_nat t) = 600 * of_nat n" using tpos by (simp add: x_def)
    also have "\<dots> < 600 * 2 ^ 43" using nlt by simp
    also have "\<dots> \<le> (2::rat) ^ 53" by simp
    finally have "300 * x * (2 * of_nat t) < 2 ^ 53" .
    then show ?thesis using tpos by (simp add: field_simps)
  qed
  with err have close: "\<bar>v2 - X\<bar> < 1 / (2 * of_nat t)" by linarith
  have XN: "X * of_nat t = of_nat (100 * n)" using tpos by (simp add: X_def x_def)
  have Xeq: "X = 100 * of_nat n / of_nat t" by (simp add: X_def x_def)
  have nearest: "\<lfloor>v2 + 1 / 2\<rfloor> = \<lfloor>X + 1 / 2\<rfloor>"
    using round_to_nearest_stable [OF t(1) XN _ close] nontie by (simp add: Xeq)
  have quotient: "num_div (Finite (of_nat n)) (Finite (of_nat t)) = Finite v1"
    using t(1) v1(1) False by (simp add: x_def)
  have product: "num_mul (Finite v1) (Finite 100) = Finite v2"
    using v2(1) v1_lo xpos by (simp add: y_def)
  have "0 < y" using v1_lo xpos by (simp add: y_def)
  then have "y / 2 ^ 53 \<le> y" by (simp add: field_simps)
  with v2(2) have "\<bar>v2 - y\<bar> \<le> y" by (rule order_trans)
  then have v2_pos: "\<not> v2 < 0" by linarith
  show ?thesis
    unfolding quotient product using nearest v2_pos by (simp add: Xeq)
qed


section \<open>Properties of the JSON functions\<close>

text \<open>Parsing what \<open>JSON.stringify\<close> writes for an array of strings gives the array back.\<close>

lemma hex_value_hex_digit: "d < 16 \<Longrightarrow> hex_value (hex_digit d) = Some (d :: 16 word)"
  unfolding hex_value_def hex_digit_def
  by (auto simp: word_less_nat_alt word_le_nat_alt unat_word_ariths unat_sub
      split: if_splits) 

lemma nibbles_recombine:
  "push_bit 12 (drop_bit 12 c) OR push_bit 8 (take_bit 4 (drop_bit 8 c)) OR
   push_bit 4 (take_bit 4 (drop_bit 4 c)) OR take_bit 4 c = (c :: 16 word)"
proof (rule bit_eqI)
  fix n :: nat
  consider "n < 4" | "4 \<le> n" "n < 8" | "8 \<le> n" "n < 12" | "12 \<le> n"
    by linarith
  then show "bit (push_bit 12 (drop_bit 12 c) OR push_bit 8 (take_bit 4 (drop_bit 8 c)) OR
   push_bit 4 (take_bit 4 (drop_bit 4 c)) OR take_bit 4 c) n = bit c n"
    by cases (auto simp: bit_simps dest: bit_imp_le_length)
qed

lemma nibble_less1: "take_bit 4 (w :: 16 word) < 16" 
  by (simp add: word_less_nat_alt unsigned_take_bit_eq take_bit_nat_def)
lemma nibble_less2: "drop_bit 12 (c :: 16 word) < 16"
proof -
  have "unat c < 65536" using unsigned_less [of c, where 'a = nat] by simp
  then show ?thesis
    by (simp add: word_less_nat_alt unat_drop_bit_eq drop_bit_nat_def)
qed

lemma hex4_unicode_escape:
  "hex4 (hex_digit (drop_bit 12 c) # hex_digit (take_bit 4 (drop_bit 8 c)) #
      hex_digit (take_bit 4 (drop_bit 4 c)) # hex_digit (take_bit 4 c) # rest) = Some c"
  by (simp add: hex4_def hex_value_hex_digit nibble_less1 nibble_less2 nibbles_recombine)

lemma lex_string_quote_unit:
  "lex_string (quote_unit c @ rest) =
     (case lex_string rest of None \<Rightarrow> None | Some (s, r) \<Rightarrow> Some (c # s, r))"
  by (auto simp: quote_unit_def unicode_escape_def unescape_def hex4_unicode_escape
      is_high_surrogate_def is_low_surrogate_def split: option.splits)

lemma surrogate_plain:
  "is_high_surrogate c \<Longrightarrow> \<not> c < 0x20 \<and> c \<noteq> 0x22 \<and> c \<noteq> 0x5C"
  "is_low_surrogate c \<Longrightarrow> \<not> c < 0x20 \<and> c \<noteq> 0x22 \<and> c \<noteq> 0x5C"
  by (auto simp: is_high_surrogate_def is_low_surrogate_def word_le_nat_alt word_less_nat_alt)

lemma lex_string_quote_units:
  "lex_string (quote_units s @ 0x22 # rest) = Some (s, rest)"
proof (induction s rule: quote_units.induct)
  case (1 c d cs)
  then show ?case
    by (auto simp: lex_string_quote_unit dest!: surrogate_plain)
next
  case (2 c)
  then show ?case by (simp add: lex_string_quote_unit)
next
  case 3
  then show ?case by simp
qed
lemma lex_quoted:
  "lex (QuoteJSONString s @ rest) = map_option ((#) (TString s)) (lex rest)"
  by (simp add: QuoteJSONString_def lex.simps is_whitespace_def lex_string_quote_units)

lemma lex_elements:
  "lex (join (ascii '','') (map QuoteJSONString ids) @ ascii '']'') = Some (elements_tokens ids)"
proof (induction ids rule: elements_tokens.induct)
  case 1
  then show ?case by (simp add: ascii_def lex.simps is_whitespace_def)
next
  case (2 x)
  then show ?case by (simp add: lex_quoted) (simp add: ascii_def lex.simps is_whitespace_def)
next
  case (3 x y ys)
  have "lex (ascii '','' @ rest) = map_option ((#) TComma) (lex rest)" for rest
    by (simp add: ascii_def lex.simps is_whitespace_def)
  with 3 show ?case by (simp add: lex_quoted)
qed

lemma lex_array:
  "lex (JSON_stringify (JArray (map JString ids))) = Some (TLeftBracket # elements_tokens ids)"
proof -
  have "lex (ascii ''['' @ rest) = map_option ((#) TLeftBracket) (lex rest)" for rest
    by (simp add: ascii_def lex.simps is_whitespace_def)
  moreover have "map JSON_stringify (map JString ids) = map QuoteJSONString ids"
    by simp
  ultimately show ?thesis by (simp add: lex_elements comp_def)
qed

lemma run_elements:
  "run ([ArrayFrame es], Value, None) (elements_tokens (x # xs)) =
     Inr (JArray (es @ map JString (x # xs)))"
  by (induction xs arbitrary: x es) simp_all

lemma run_array:
  "run ([], Value, None) (TLeftBracket # elements_tokens ids) = Inr (JArray (map JString ids))"
proof (cases ids)
  case Nil
  then show ?thesis by simp
next
  case (Cons x xs)
  have "run ([ArrayFrame []], ValueOrClose, None) (elements_tokens (x # xs)) =
        run ([ArrayFrame []], Value, None) (elements_tokens (x # xs))"
    by (cases xs) simp_all
  with Cons show ?thesis by (simp add: run_elements del: elements_tokens.simps)
qed

lemma JSON_roundtrip_strings:
  "JSON_parse (JSON_stringify (JArray (map JString ids))) = Inr (JArray (map JString ids))"
  unfolding JSON_parse_def lex_array by (simp only: option.case run_array)

lemmas json_eval = JSON_parse_def lex.simps ascii_def is_whitespace_def is_digit_def
  QuoteJSONString_def quote_unit_def is_high_surrogate_def is_low_surrogate_def unescape_def


section \<open>Properties of the Collection module\<close>

lemma Set_has_string: "Set_has xs (JString i) = (JString i \<in> set xs)"
  by (auto simp: Set_has_def same_value_zero_def positive_zero_def list_ex_iff split: if_splits)

lemma collect_member: "isCollected i s \<Longrightarrow> collect i s = Inr (False, s)"
  by (simp add: collect_def isCollected_def)

lemma repeat_collect_member:
  "isCollected i s \<Longrightarrow> repeat_collect n i s = Inr (replicate n False, s)"
  by (induction n) (simp_all add: collect_member)

lemma saveToStorage_collection:
  "\<exists>s'. saveToStorage s = Inr s' \<and> collection s' = collection s \<and>
     progress_count s' = progress_count s \<and> celebration_hidden s' = celebration_hidden s \<and>
     setItem_log (localStorage s') =
       setItem_log (localStorage s) @ [(STORAGE_KEY, JSON_stringify (JArray (collection s)))] \<and>
     (writable (localStorage s) \<longrightarrow>
        map_of (items (localStorage s')) STORAGE_KEY =
          Some (JSON_stringify (JArray (collection s))) \<and>
        console s' = console s) \<and>
     (\<not> writable (localStorage s) \<longrightarrow>
        items (localStorage s') = items (localStorage s) \<and>
        console s' = console s @ [(ascii ''Error saving collection:'', Some QuotaExceededError)])"
  by (simp add: saveToStorage_def setItem_def Let_def del: JSON_stringify.simps)

lemma collection_update_display [simp]:
  "collection (updateProgressDisplay s) = collection s"
  "localStorage (updateProgressDisplay s) = localStorage s"
  "console (updateProgressDisplay s) = console s"
  by (simp_all add: updateProgressDisplay_def split: option.split)

lemma collection_celebration [simp]:
  "collection (showCelebration s) = collection s"
  "localStorage (showCelebration s) = localStorage s"
  "console (showCelebration s) = console s"
  by (simp_all add: showCelebration_def split: option.split)

text \<open>
  Claim C1. \<open>collect(id)\<close> returns true exactly when the id was not a member. In that
  case the id is added to the set and one write of the serialized new set to the storage
  key is made; when the id was a member the whole state is unchanged, so no write is made.
  In any run of repeated calls with the same id, no call after the first returns true or
  changes the state.
\<close>

theorem collect_exactly_once:
  "\<exists>s1. collect i s = Inr (\<not> isCollected i s, s1) \<and>
     (isCollected i s \<longrightarrow> s1 = s) \<and>
     (\<not> isCollected i s \<longrightarrow>
        collection s1 = collection s @ [JString i] \<and> isCollected i s1 \<and>
        setItem_log (localStorage s1) =
          setItem_log (localStorage s) @ [(STORAGE_KEY, JSON_stringify (JArray (collection s1)))] \<and>
        (writable (localStorage s) \<longrightarrow>
           map_of (items (localStorage s1)) STORAGE_KEY =
             Some (JSON_stringify (JArray (collection s1))))) \<and>
     repeat_collect (Suc n) i s = Inr ((\<not> isCollected i s) # replicate n False, s1)"
proof (cases "isCollected i s")
  case True
  then show ?thesis
    by (simp add: collect_member repeat_collect_member)
next
  case False
  let ?s = "s\<lparr>collection := Set_add (collection s) (JString i)\<rparr>"
  obtain s' where s': "saveToStorage ?s = Inr s'" "collection s' = collection ?s"
    "setItem_log (localStorage s') =
       setItem_log (localStorage ?s) @ [(STORAGE_KEY, JSON_stringify (JArray (collection ?s)))]"
    "writable (localStorage ?s) \<longrightarrow>
       map_of (items (localStorage s')) STORAGE_KEY =
         Some (JSON_stringify (JArray (collection ?s)))"
    using saveToStorage_collection [of ?s] by blast
  let ?s1 = "showCelebration (updateProgressDisplay s')"
  have c: "collect i s = Inr (True, ?s1)"
    using False s' by (simp add: collect_def isCollected_def)
  have col: "collection ?s1 = collection s @ [JString i]"
    using False s' by (simp add: Set_add_def isCollected_def)
  have mem: "isCollected i ?s1"
    using col by (simp add: isCollected_def Set_has_string)
  have log: "setItem_log (localStorage ?s1) =
      setItem_log (localStorage s) @ [(STORAGE_KEY, JSON_stringify (JArray (collection ?s1)))]"
    using s' col by simp
  have stored: "writable (localStorage s) \<longrightarrow>
      map_of (items (localStorage ?s1)) STORAGE_KEY =
        Some (JSON_stringify (JArray (collection ?s1)))"
    using s' col by (simp del: JSON_stringify.simps)
  have "repeat_collect (Suc n) i s = Inr (True # replicate n False, ?s1)"
    using c repeat_collect_member [OF mem, of n] by simp
  with False c col mem log stored show ?thesis
    by (intro exI [of _ ?s1]) (simp del: JSON_stringify.simps)
qed

theorem collect_exactly_once_witness:
  "\<not> isCollected (ascii ''A'') (state_with [] empty_storage) \<and>
   (\<exists>s1. collect (ascii ''A'') (state_with [] empty_storage) = Inr (True, s1) \<and>
      collection s1 = [JString (ascii ''A'')] \<and>
      repeat_collect 3 (ascii ''A'') (state_with [] empty_storage) = Inr ([True, False, False], s1)) \<and>
   isCollected (ascii ''A'') (state_with [ascii ''A''] empty_storage) \<and>
   repeat_collect 3 (ascii ''A'') (state_with [ascii ''A''] empty_storage) =
     Inr ([False, False, False], state_with [ascii ''A''] empty_storage)"
  using collect_exactly_once [of "ascii ''A''" "state_with [] empty_storage" 2]
    collect_exactly_once [of "ascii ''A''" "state_with [ascii ''A''] empty_storage" 2]
  by (auto simp: isCollected_def Set_has_string state_with_def fresh_state_def numeral_3_eq_3)

text \<open>
  Claim C9. When the storage refuses the write, \<open>collect\<close> of a new id and \<open>reset\<close>
  still complete: the exception is caught and logged, the stored items are as before, and
  the set in memory holds the new id, or is empty after \<open>reset\<close>.
\<close>

theorem write_failure_keeps_mutation:
  assumes "\<not> writable (localStorage s)"
  shows "(\<not> isCollected i s \<longrightarrow>
           (\<exists>s1. collect i s = Inr (True, s1) \<and> isCollected i s1 \<and>
              collection s1 = collection s @ [JString i] \<and>
              items (localStorage s1) = items (localStorage s) \<and>
              console s1 = console s @ [(ascii ''Error saving collection:'', Some QuotaExceededError)])) \<and>
         (\<exists>s2. reset s = Inr s2 \<and> collection s2 = [] \<and>
            items (localStorage s2) = items (localStorage s) \<and>
            console s2 = console s @ [(ascii ''Error saving collection:'', Some QuotaExceededError)])"
proof (intro conjI impI)
  assume new: "\<not> isCollected i s"
  let ?s = "s\<lparr>collection := Set_add (collection s) (JString i)\<rparr>"
  from assms have "\<not> writable (localStorage ?s)" by simp
  with saveToStorage_collection [of ?s] obtain s' where s': "saveToStorage ?s = Inr s'"
    "collection s' = collection ?s" "items (localStorage s') = items (localStorage ?s)"
    "console s' = console ?s @ [(ascii ''Error saving collection:'', Some QuotaExceededError)]"
    by blast
  let ?s1 = "showCelebration (updateProgressDisplay s')"
  have "collect i s = Inr (True, ?s1)"
    using new s' by (simp add: collect_def isCollected_def)
  moreover have "collection ?s1 = collection s @ [JString i]"
    using new s' by (simp add: Set_add_def isCollected_def)
  moreover from this have "isCollected i ?s1"
    by (simp add: isCollected_def Set_has_string)
  moreover have "items (localStorage ?s1) = items (localStorage s)"
    using s' by simp
  moreover have "console ?s1 = console s @ [(ascii ''Error saving collection:'', Some QuotaExceededError)]"
    using s' by simp
  ultimately show "\<exists>s1. collect i s = Inr (True, s1) \<and> isCollected i s1 \<and>
      collection s1 = collection s @ [JString i] \<and>
      items (localStorage s1) = items (localStorage s) \<and>
      console s1 = console s @ [(ascii ''Error saving collection:'', Some QuotaExceededError)]"
    by blast
next
  let ?s = "s\<lparr>collection := []\<rparr>"
  from assms have "\<not> writable (localStorage ?s)" by simp
  with saveToStorage_collection [of ?s] obtain s' where s': "saveToStorage ?s = Inr s'"
    "collection s' = collection ?s" "items (localStorage s') = items (localStorage ?s)"
    "console s' = console ?s @ [(ascii ''Error saving collection:'', Some QuotaExceededError)]"
    by blast
  then show "\<exists>s2. reset s = Inr s2 \<and> collection s2 = [] \<and>
      items (localStorage s2) = items (localStorage s) \<and>
      console s2 = console s @ [(ascii ''Error saving collection:'', Some QuotaExceededError)]"
    by (simp add: reset_def)
qed

theorem write_failure_keeps_mutation_witness:
  "\<not> writable (localStorage (state_with [ascii ''A''] full_storage)) \<and>
   \<not> isCollected (ascii ''B'') (state_with [ascii ''A''] full_storage) \<and>
   (\<exists>s1. collect (ascii ''B'') (state_with [ascii ''A''] full_storage) = Inr (True, s1) \<and>
      collection s1 = [JString (ascii ''A''), JString (ascii ''B'')] \<and>
      items (localStorage s1) = []) \<and>
   (\<exists>s2. reset (state_with [ascii ''A''] full_storage) = Inr s2 \<and> collection s2 = [] \<and>
      items (localStorage s2) = [])"
  using write_failure_keeps_mutation [of "state_with [ascii ''A''] full_storage" "ascii ''B''"]
  by (auto simp: isCollected_def Set_has_string state_with_def fresh_state_def full_storage_def ascii_def)

text \<open>
  Claim C10, as stated, fails for the zero \<open>-0\<close> (\<open>-0 === 0\<close> holds): with this total and
  a set that is not empty the percentage is \<open>-Infinity\<close>, which is not \<open>Infinity\<close>.
\<close>

theorem getProgress_negative_zero_counterexample:
  "collection (state_with [ascii ''A''] empty_storage) = [JString (ascii ''A'')] \<and>
   getProgress (Some NegZero) (state_with [ascii ''A''] empty_storage) =
     \<lparr>collected = 1, total' = NegZero, percentage = NegInfinity\<rparr>"
  by (simp add: getProgress_def Let_def state_with_def fresh_state_def num_div_def num_mul_def
      signed_infinity_def)

text \<open>
  Claim C10, amended. The division in \<open>getProgress\<close> is unguarded: with a total of zero
  the percentage is not a finite number. It is \<open>NaN\<close> for an empty set; for a set that is
  not empty it is \<open>Infinity\<close> when the total is \<open>+0\<close> and \<open>-Infinity\<close> when the total is
  \<open>-0\<close>. Without an argument the total is 20.
\<close>

theorem getProgress_zero_total:
  "percentage (getProgress (Some (Finite 0)) s) = (if collection s = [] then NaN else PosInfinity) \<and>
   percentage (getProgress (Some NegZero) s) = (if collection s = [] then NaN else NegInfinity) \<and>
   getProgress None s = getProgress (Some (Finite 20)) s \<and>
   total' (getProgress None s) = Finite 20"
  by (simp add: getProgress_def Let_def num_div_def num_mul_def signed_infinity_def)


lemma length_state_with: "length (collection (state_with (numbered_ids n) ls)) = n"
  by (simp add: state_with_def fresh_state_def numbered_ids_def)
lemma percentage_202_of_201:
  "Math_round (num_mul (round64 (202 / 201)) (Finite 100)) = Finite 100"
  by code_simp

text \<open>
  Claim C2, as stated, fails in its last part: with 202 collected ids and a total of 201
  the count exceeds the total and the percentage is 100.
\<close>

theorem count_above_total_counterexample:
  "collected (getProgress (Some (Finite 201)) (state_with (numbered_ids 202) empty_storage)) = 202 \<and>
   percentage (getProgress (Some (Finite 201)) (state_with (numbered_ids 202) empty_storage)) =
     Finite 100"
  by (simp add: getProgress_def Let_def length_state_with percentage_202_of_201)

text \<open>
  Claim C2, amended. The summary holds the size of the set and the total that the caller
  gave. For a total \<open>t\<close> with \<open>0 < t < 2^53\<close> and fewer than \<open>2^43\<close> collected ids, the
  percentage is \<open>100 * count / t\<close> rounded to the nearest integer, provided that this
  quotient is not halfway between two integers; a count of at least the total then gives
  a percentage of at least 100: the percentage is not capped.
\<close>

theorem getProgress_rounds_percentage:
  "collected (getProgress arg s) = length (collection s) \<and>
   total' (getProgress (Some tot) s) = tot \<and>
   (0 < t \<and> t < 2 ^ 53 \<and> length (collection s) < 2 ^ 43 \<and>
    frac (100 * of_nat (length (collection s)) / of_nat t :: rat) \<noteq> 1 / 2 \<longrightarrow>
      percentage (getProgress (Some (Finite (of_nat t))) s) =
        Finite (of_int \<lfloor>100 * of_nat (length (collection s)) / of_nat t + 1 / 2 :: rat\<rfloor>) \<and>
      (t \<le> length (collection s) \<longrightarrow>
         100 \<le> \<lfloor>100 * of_nat (length (collection s)) / of_nat t + 1 / 2 :: rat\<rfloor>))"
proof (intro conjI impI)
  show "collected (getProgress arg s) = length (collection s)"
    by (simp add: getProgress_def Let_def)
  show "total' (getProgress (Some tot) s) = tot"
    by (simp add: getProgress_def Let_def)
next
  assume "0 < t \<and> t < 2 ^ 53 \<and> length (collection s) < 2 ^ 43 \<and>
    frac (100 * of_nat (length (collection s)) / of_nat t :: rat) \<noteq> 1 / 2"
  then show "percentage (getProgress (Some (Finite (of_nat t))) s) =
        Finite (of_int \<lfloor>100 * of_nat (length (collection s)) / of_nat t + 1 / 2 :: rat\<rfloor>)"
    using percentage_exact [of t "length (collection s)"] by (simp add: getProgress_def Let_def)
next
  assume range: "0 < t \<and> t < 2 ^ 53 \<and> length (collection s) < 2 ^ 43 \<and>
    frac (100 * of_nat (length (collection s)) / of_nat t :: rat) \<noteq> 1 / 2"
  assume "t \<le> length (collection s)"
  then have "(of_nat t :: rat) \<le> of_nat (length (collection s))" by (simp only: of_nat_le_iff)
  then have "(100 :: rat) \<le> 100 * of_nat (length (collection s)) / of_nat t"
    using range by (simp add: le_divide_eq)
  then have "(of_int 100 :: rat) \<le> 100 * of_nat (length (collection s)) / of_nat t + 1 / 2"
    by simp
  then show "100 \<le> \<lfloor>100 * of_nat (length (collection s)) / of_nat t + 1 / 2 :: rat\<rfloor>"
    by (simp only: le_floor_iff)
qed

theorem getProgress_rounds_percentage_witness:
  "(0::nat) < 20 \<and> (20::nat) < 2 ^ 53 \<and>
   length (collection (state_with (numbered_ids 21) empty_storage)) < 2 ^ 43 \<and>
   frac (100 * of_nat (length (collection (state_with (numbered_ids 21) empty_storage))) / of_nat 20 :: rat) \<noteq> 1 / 2 \<and>
   20 \<le> length (collection (state_with (numbered_ids 21) empty_storage)) \<and>
   getProgress (Some (Finite 20)) (state_with (numbered_ids 21) empty_storage) =
     \<lparr>collected = 21, total' = Finite 20, percentage = Finite 105\<rparr>"
proof -
  have f: "frac (100 * of_nat (length (collection (state_with (numbered_ids 21) empty_storage))) / of_nat 20 :: rat) \<noteq> 1 / 2"
    by (simp add: length_state_with frac_def)
  have fl: "\<lfloor>211 / 2 :: rat\<rfloor> = 105"
    by (rule floor_unique) simp_all
  have "percentage (getProgress (Some (Finite 20)) (state_with (numbered_ids 21) empty_storage)) =
     Finite 105"
    using getProgress_rounds_percentage
      [of "Some (Finite 20)" "state_with (numbered_ids 21) empty_storage" "Finite 20" 20] f
    by (simp add: length_state_with fl)
  then have "getProgress (Some (Finite 20)) (state_with (numbered_ids 21) empty_storage) =
     \<lparr>collected = 21, total' = Finite 20, percentage = Finite 105\<rparr>"
    by (simp add: getProgress_def Let_def length_state_with)
  with f show ?thesis by (simp add: length_state_with)
qed

lemma percentage_23_of_40:
  "Math_round (num_mul (round64 (23 / 40)) (Finite 100)) = Finite 57"
  by code_simp

text \<open>
  Halfway cases depend on the two roundings of the double arithmetic: 23 of 40 is 57.5
  percent, the product \<open>(23 / 40) * 100\<close> is the double just below 57.5, and the summary
  says 57 where rounding the exact quotient gives 58.
\<close>

lemma getProgress_tie_rounded_down:
  "percentage (getProgress (Some (Finite 40)) (state_with (numbered_ids 23) empty_storage)) =
     Finite 57 \<and>
   \<lfloor>100 * 23 / 40 + 1 / 2 :: rat\<rfloor> = 58"
  by (simp add: getProgress_def Let_def length_state_with percentage_23_of_40)

text \<open>
  Claim C3, as stated, fails for a stored value that is corrupted and still iterable: from
  the stored text \<open>"ab"\<close>, a JSON string and not a list of identifiers, the module
  restores the set of the two characters.
\<close>

theorem corrupted_storage_counterexample:
  "init (fresh_state (storage_holding quoted_ab) None None) =
     Inr \<lparr>collection = [JString (ascii ''a''), JString (ascii ''b'')],
          localStorage = storage_holding quoted_ab,
          console = [(ascii ''Collection module initialized'', None)],
          progress_count = None, celebration_hidden = None, pending_timeouts = 0\<rparr>"
  by (simp add: init_def loadFromStorage_def loadFromStorage_try_def fresh_state_def
      storage_holding_def getItem_def quoted_ab_def json_eval new_Set_def Set_add_def Set_has_def
      same_value_zero_def positive_zero_def updateProgressDisplay_def STORAGE_KEY_def)

text \<open>
  Claim C3, amended. Initialising the module never fails, whatever the storage holds, and
  the restored set is empty whenever the item cannot be read, is absent or empty, is not
  JSON, or is JSON for a number, a boolean, an object or \<open>null\<close>. An exception while
  loading is logged and leaves the set empty. A stored JSON array or string is not
  validated: the elements of the array, whatever they are, or the code points of the
  string are added one after the other to a new \<open>Set\<close>, which becomes the collected set.
\<close>

theorem init_never_fails:
  "\<exists>s'. init (fresh_state ls p c) = Inr s' \<and>
     (restores_nothing ls \<longrightarrow> collection s' = []) \<and>
     (\<forall>e. loadFromStorage_try (fresh_state ls p c) = Inl e \<longrightarrow>
        collection s' = [] \<and>
        console s' =
          [(ascii ''Error loading collection:'', Some e),
           (ascii ''Collection module initialized'', None)]) \<and>
     (\<forall>text xs. getItem ls STORAGE_KEY = Inr (Some text) \<and> text \<noteq> [] \<and>
        JSON_parse text = Inr (JArray xs) \<longrightarrow>
        collection s' = foldl Set_add [] xs) \<and>
     (\<forall>text str. getItem ls STORAGE_KEY = Inr (Some text) \<and> text \<noteq> [] \<and>
        JSON_parse text = Inr (JString str) \<longrightarrow>
        collection s' = foldl Set_add [] (map JString (code_points str)))"
  by (auto simp: init_def loadFromStorage_def loadFromStorage_try_def restores_nothing_def
      iterable_def new_Set_def fresh_state_def updateProgressDisplay_def
      split: sum.splits option.splits json.splits if_splits)

theorem init_never_fails_witness:
  "restores_nothing (storage_holding (ascii ''{broken'')) \<and>
   loadFromStorage_try (fresh_state (storage_holding (ascii ''{broken'')) None None) = Inl SyntaxError \<and>
   (\<exists>s'. init (fresh_state (storage_holding (ascii ''{broken'')) None None) = Inr s' \<and>
      collection s' = [] \<and>
      console s' =
        [(ascii ''Error loading collection:'', Some SyntaxError),
         (ascii ''Collection module initialized'', None)]) \<and>
   getItem (storage_holding (ascii ''[null,true,null]'')) STORAGE_KEY =
     Inr (Some (ascii ''[null,true,null]'')) \<and>
   ascii ''[null,true,null]'' \<noteq> [] \<and>
   JSON_parse (ascii ''[null,true,null]'') = Inr (JArray [JNull, JBool True, JNull]) \<and>
   (\<exists>s'. init (fresh_state (storage_holding (ascii ''[null,true,null]'')) None None) = Inr s' \<and>
      collection s' = [JNull, JBool True]) \<and>
   getItem (storage_holding quoted_ab) STORAGE_KEY = Inr (Some quoted_ab) \<and>
   quoted_ab \<noteq> [] \<and>
   JSON_parse quoted_ab = Inr (JString (ascii ''ab'')) \<and>
   (\<exists>s'. init (fresh_state (storage_holding quoted_ab) None None) = Inr s' \<and>
      collection s' = [JString (ascii ''a''), JString (ascii ''b'')])"
proof -
  have unparsable: "restores_nothing (storage_holding (ascii ''{broken''))"
    by (simp add: restores_nothing_def storage_holding_def getItem_def json_eval)
  have thrown: "loadFromStorage_try (fresh_state (storage_holding (ascii ''{broken'')) None None) =
      Inl SyntaxError"
    by (simp add: loadFromStorage_try_def fresh_state_def storage_holding_def getItem_def json_eval)
  have first: "\<exists>s'. init (fresh_state (storage_holding (ascii ''{broken'')) None None) = Inr s' \<and>
      collection s' = [] \<and>
      console s' =
        [(ascii ''Error loading collection:'', Some SyntaxError),
         (ascii ''Collection module initialized'', None)]"
    using init_never_fails [of "storage_holding (ascii ''{broken'')" None None] unparsable thrown by auto
  have item: "getItem (storage_holding stored) STORAGE_KEY = Inr (Some stored)" for stored
    by (simp add: storage_holding_def getItem_def)
  have array: "JSON_parse (ascii ''[null,true,null]'') = Inr (JArray [JNull, JBool True, JNull])"
    by (simp add: json_eval)
  have elements: "foldl Set_add [] [JNull, JBool True, JNull] = [JNull, JBool True]"
    by (simp add: Set_add_def Set_has_def same_value_zero_def positive_zero_def)
  have second: "\<exists>s'. init (fresh_state (storage_holding (ascii ''[null,true,null]'')) None None) =
      Inr s' \<and> collection s' = [JNull, JBool True]"
    using init_never_fails [of "storage_holding (ascii ''[null,true,null]'')" None None]
      item [of "ascii ''[null,true,null]''"] array elements
    by (auto simp: ascii_def)
  have quoted: "JSON_parse quoted_ab = Inr (JString (ascii ''ab''))"
    by (simp add: quoted_ab_def json_eval)
  have points: "foldl Set_add [] (map JString (code_points (ascii ''ab''))) =
      [JString (ascii ''a''), JString (ascii ''b'')]"
    by (simp add: ascii_def Set_add_def Set_has_def same_value_zero_def positive_zero_def
        is_high_surrogate_def is_low_surrogate_def)
  have third: "\<exists>s'. init (fresh_state (storage_holding quoted_ab) None None) = Inr s' \<and>
      collection s' = [JString (ascii ''a''), JString (ascii ''b'')]"
    using init_never_fails [of "storage_holding quoted_ab" None None] item [of quoted_ab]
      quoted points
    by (auto simp: quoted_ab_def)
  show ?thesis
    using unparsable thrown first item array second quoted third
    by (simp add: quoted_ab_def ascii_def)
qed

lemma stringify_nonempty: "JSON_stringify (JArray xs) \<noteq> []"
  by (simp add: ascii_def)

lemma foldl_Set_add_distinct:
  "distinct ids \<Longrightarrow> set ids \<inter> {i. JString i \<in> set acc} = {} \<Longrightarrow>
     foldl Set_add acc (map JString ids) = acc @ map JString ids"
proof (induction ids arbitrary: acc)
  case Nil
  then show ?case by simp
next
  case (Cons i ids)
  have "Set_add acc (JString i) = acc @ [JString i]"
    using Cons.prems by (auto simp: Set_add_def Set_has_string)
  moreover have "set ids \<inter> {j. JString j \<in> set (acc @ [JString i])} = {}"
    using Cons.prems by auto
  ultimately show ?case using Cons.IH [of "acc @ [JString i]"] Cons.prems by simp
qed

lemma new_Set_distinct:
  "distinct ids \<Longrightarrow> new_Set (JArray (map JString ids)) = Inr (map JString ids)"
  using foldl_Set_add_distinct [of ids "[]"] by (simp add: new_Set_def)

text \<open>
  Claim C4. A set of distinct string ids that is saved to a storage that accepts the write
  is restored by the next initialisation with exactly the same ids (in the same order):
  the item under the storage key is the JSON text of the array of the ids, and parsing it
  and building the set anew gives the ids back.
\<close>

theorem persist_restore_roundtrip:
  assumes "collection s = map JString ids" and "distinct ids"
    and "writable (localStorage s)" and "readable (localStorage s)"
  shows "\<exists>s1 s2. saveToStorage s = Inr s1 \<and>
           getItem (localStorage s1) STORAGE_KEY = Inr (Some (JSON_stringify (JArray (map JString ids)))) \<and>
           init (fresh_state (localStorage s1) p c) = Inr s2 \<and>
           collection s2 = map JString ids \<and>
           (\<forall>i. isCollected i s2 = isCollected i s)"
proof -
  let ?text = "JSON_stringify (JArray (map JString ids))"
  let ?ls = "(localStorage s)\<lparr>setItem_log := setItem_log (localStorage s) @ [(STORAGE_KEY, ?text)],
      items := (STORAGE_KEY, ?text) # filter (\<lambda>(k', v'). k' \<noteq> STORAGE_KEY) (items (localStorage s))\<rparr>"
  have save: "saveToStorage s = Inr (s\<lparr>localStorage := ?ls\<rparr>)"
    using assms by (simp add: saveToStorage_def setItem_def Let_def del: JSON_stringify.simps)
  have get: "getItem ?ls STORAGE_KEY = Inr (Some ?text)"
    using assms by (simp add: getItem_def del: JSON_stringify.simps)
  have "loadFromStorage_try (fresh_state ?ls p c) =
      Inr ((fresh_state ?ls p c)\<lparr>collection := map JString ids\<rparr>)"
    using assms(2) get
    by (simp add: loadFromStorage_try_def fresh_state_def stringify_nonempty
        JSON_roundtrip_strings new_Set_distinct del: JSON_stringify.simps)
  then have "\<exists>s2. init (fresh_state ?ls p c) = Inr s2 \<and> collection s2 = map JString ids"
    by (simp add: init_def loadFromStorage_def)
  then obtain s2 where s2: "init (fresh_state ?ls p c) = Inr s2" "collection s2 = map JString ids"
    by blast
  have "isCollected i s2 = isCollected i s" for i
    using s2 assms(1) by (simp add: isCollected_def)
  with save get s2 show ?thesis
    by (intro exI [of _ "s\<lparr>localStorage := ?ls\<rparr>"] exI [of _ s2]) simp
qed

theorem persist_restore_roundtrip_witness:
  "collection (state_with [ascii ''A'', ascii ''B''] empty_storage) =
     map JString [ascii ''A'', ascii ''B''] \<and>
   distinct [ascii ''A'', ascii ''B''] \<and>
   writable (localStorage (state_with [ascii ''A'', ascii ''B''] empty_storage)) \<and>
   readable (localStorage (state_with [ascii ''A'', ascii ''B''] empty_storage)) \<and>
   (\<exists>s1 s2. saveToStorage (state_with [ascii ''A'', ascii ''B''] empty_storage) = Inr s1 \<and>
      getItem (localStorage s1) STORAGE_KEY = Inr (Some (ascii ''[\"A\",\"B\"]'')) \<and>
      init (fresh_state (localStorage s1) None None) = Inr s2 \<and>
      collection s2 = [JString (ascii ''A''), JString (ascii ''B'')])"
  using persist_restore_roundtrip [of "state_with [ascii ''A'', ascii ''B''] empty_storage"
      "[ascii ''A'', ascii ''B'']" None None]
  by (simp add: state_with_def fresh_state_def empty_storage_def ascii_def QuoteJSONString_def
      quote_unit_def is_high_surrogate_def is_low_surrogate_def) blast


section \<open>Properties of the gallery\<close>

text \<open>
  Claim C7. The gallery item of an animal that is not collected is determined by the
  rarity alone: a silhouette and the text "???" under a class attribute computed from the
  rarity. It has no \<open>img\<close> element, no attribute, no listener, and no text other than the
  placeholder, so neither the name nor the image reference of the record enters it.
\<close>

theorem unowned_entry_redacted:
  assumes "\<not> isCollected (id' a) s"
  shows "createGalleryItem a s =
           Element (ascii ''div'') (placeholder_class (rarity a)) [] []
             [Element (ascii ''div'') (ascii ''collection-item__silhouette'') [] [] [] [],
              Element (ascii ''span'') (ascii ''collection-item__name'') [] (ascii ''???'') [] []]
             [] \<and>
         ascii ''img'' \<notin> set (element_tags (createGalleryItem a s)) \<and>
         element_strings (createGalleryItem a s) = [[], [], ascii ''???''] \<and>
         element_listeners (createGalleryItem a s) = []"
proof -
  have eq: "createGalleryItem a s =
           Element (ascii ''div'') (placeholder_class (rarity a)) [] []
             [Element (ascii ''div'') (ascii ''collection-item__silhouette'') [] [] [] [],
              Element (ascii ''span'') (ascii ''collection-item__name'') [] (ascii ''???'') [] []]
             []"
    using assms
    by (simp add: createGalleryItem_def isCollected_def createElement_def classList_toggle_def
        placeholder_class_def Let_def)
  have "ascii ''img'' \<notin> set (element_tags (createGalleryItem a s))"
    by (simp add: eq ascii_def)
  moreover have "element_strings (createGalleryItem a s) = [[], [], ascii ''???'']"
    by (simp add: eq)
  moreover have "element_listeners (createGalleryItem a s) = []"
    by (simp add: eq)
  ultimately show ?thesis using eq by simp
qed

lemma placeholder_class_common:
  "placeholder_class (ascii ''common'') =
     ascii ''collection-item collection-item--common collection-item--undiscovered''"
  by (simp add: placeholder_class_def toggle_class_def classList_def ordered_set_def ascii_def
      is_ascii_whitespace_def)

theorem unowned_entry_redacted_witness:
  "\<not> isCollected (id' emu) (state_with [] empty_storage) \<and>
   createGalleryItem emu (state_with [] empty_storage) =
     Element (ascii ''div'')
       (ascii ''collection-item collection-item--common collection-item--undiscovered'') [] []
       [Element (ascii ''div'') (ascii ''collection-item__silhouette'') [] [] [] [],
        Element (ascii ''span'') (ascii ''collection-item__name'') [] (ascii ''???'') [] []]
       []"
  using unowned_entry_redacted [of emu "state_with [] empty_storage"]
  by (simp add: isCollected_def Set_has_string state_with_def fresh_state_def emu_def
      placeholder_class_common)


section \<open>Properties of the catalog load\<close>






text \<open>
  A load can also fail after the assignment: the body \<open>null\<close> is assigned and \<open>loaded\<close> is
  set before reading \<open>animals.length\<close> throws, so that the call returns the empty list and
  every later call returns the cached \<open>null\<close>.
\<close>

lemma loadAnimals_null_body:
  assumes "\<not> loaded d" and "plan (fetches d) = Response True st (Some JNull)"
  shows "loadAnimals plan d =
     (d\<lparr>fetches := Suc (fetches d), animals := JNull, loaded := True,
        data_console := data_console d @ [(ascii ''Error loading animal data:'', Some TypeError)]\<rparr>,
      Inr (JArray []))"
    and "loadAnimals plan (fst (loadAnimals plan d)) = (fst (loadAnimals plan d), Inr JNull)"
  using assms by (simp_all add: loadAnimals_def loadAnimals_try_def js_length_def Let_def)



end
